theory Spec2Isabelle
  imports Complex_Main "HOL-Library.AList" "HOL-Library.Multiset"
begin

section \<open>Career Compass: session store, page routines and skills-gap analysis\<close>

text \<open>
  A shallow embedding of \<^verbatim>\<open>app.py\<close>. The Streamlit session store is a record of
  optional slots (a slot that is \<open>None\<close> is absent from \<^verbatim>\<open>st.session_state\<close>), a
  Python dict is an association list in insertion order, every exception the script
  can raise is a value of \<open>error\<close>, and the widgets of one script run are a record
  of the values they return in that run.
\<close>

subsection \<open>Errors and dictionaries\<close>

datatype error =
  AttributeError | KeyError | IndexError | TypeError | ValueError | ZeroDivisionError

text \<open>\<^verbatim>\<open>d.get(k, default)\<close> on an insertion-ordered dict.\<close>

definition dict_get :: "('k \<times> 'v) list \<Rightarrow> 'k \<Rightarrow> 'v \<Rightarrow> 'v" where
  "dict_get d k dflt = (case map_of d k of None \<Rightarrow> dflt | Some v \<Rightarrow> v)"

text \<open>
  \<^verbatim>\<open>xs.sort(key=f, reverse=True)\<close>: Python's sort is stable, and with
  \<^verbatim>\<open>reverse=True\<close> elements with equal keys keep their original order. It is an
  insertion sort on the negated key here.
\<close>

definition sort_reverse :: "('a \<Rightarrow> int) \<Rightarrow> 'a list \<Rightarrow> 'a list" where
  "sort_reverse key xs = sort_key (\<lambda>x. - key x) xs"

subsection \<open>The static skill table (\<^verbatim>\<open>get_industry_skills\<close>)\<close>

text \<open>A resource is the pair of its \<^verbatim>\<open>name\<close> and its \<^verbatim>\<open>url\<close>.\<close>

type_synonym resource = "string \<times> string"

record skill =
  name :: string
  weight :: int
  resources :: "resource list"

text \<open>A career path's table: category \<open>\<mapsto>\<close> list of skills, in the order of the dict.\<close>

type_synonym skill_table = "(string \<times> skill list) list"

definition software_development_skills :: "skill_table" where
  "software_development_skills = [
    (''Technical'', [
      \<lparr>name = ''Modern JavaScript (ES6+)'', weight = 4, resources = [
          (''Modern JavaScript Course'', ''https://www.udemy.com/course/modern-javascript-from-novice-to-ninja/''),
          (''JavaScript.info'', ''https://javascript.info/''),
          (''MDN Web Docs'', ''https://developer.mozilla.org/en-US/docs/Web/JavaScript'')]\<rparr>,
      \<lparr>name = ''React/Angular/Vue.js'', weight = 4, resources = [
          (''React - The Complete Guide'', ''https://www.udemy.com/course/react-the-complete-guide-incl-redux/''),
          (''Vue.js Course'', ''https://www.udemy.com/course/vuejs-2-the-complete-guide/''),
          (''Angular Tutorial'', ''https://angular.io/tutorial'')]\<rparr>,
      \<lparr>name = ''Node.js'', weight = 3, resources = [
          (''Node.js Complete Guide'', ''https://www.udemy.com/course/nodejs-the-complete-guide/''),
          (''Node.js Documentation'', ''https://nodejs.org/en/docs/'')]\<rparr>,
      \<lparr>name = ''Cloud Services (AWS/Azure/GCP)'', weight = 4, resources = [
          (''AWS Certified Developer'', ''https://www.udemy.com/course/aws-certified-developer-associate/''),
          (''Azure Fundamentals'', ''https://learn.microsoft.com/en-us/training/azure/'')]\<rparr>,
      \<lparr>name = ''Docker & Kubernetes'', weight = 3, resources = [
          (''Docker & Kubernetes Course'', ''https://www.udemy.com/course/docker-and-kubernetes-the-complete-guide/''),
          (''Kubernetes Documentation'', ''https://kubernetes.io/docs/home/'')]\<rparr>]),
    (''Tools'', [
      \<lparr>name = ''Git & GitHub'', weight = 5, resources = [
          (''Git Complete Guide'', ''https://www.udemy.com/course/git-complete/''),
          (''GitHub Learning Lab'', ''https://lab.github.com/'')]\<rparr>,
      \<lparr>name = ''VS Code/Modern IDEs'', weight = 4, resources = [
          (''VS Code Tutorial'', ''https://code.visualstudio.com/docs''),
          (''VS Code Can Do That?'', ''https://www.vscodecandothat.com/'')]\<rparr>,
      \<lparr>name = ''Testing Frameworks'', weight = 4, resources = [
          (''JavaScript Testing Course'', ''https://www.udemy.com/course/javascript-unit-testing-the-practical-guide/''),
          (''Jest Documentation'', ''https://jestjs.io/docs/getting-started'')]\<rparr>]),
    (''Soft Skills'', [
      \<lparr>name = ''Agile Methodologies'', weight = 4, resources = [
          (''Agile Fundamentals'', ''https://www.coursera.org/learn/agile-fundamentals''),
          (''Scrum Guide'', ''https://scrumguides.org/'')]\<rparr>,
      \<lparr>name = ''Technical Communication'', weight = 5, resources = [
          (''Technical Writing Course'', ''https://www.coursera.org/learn/technical-writing''),
          (''Google Technical Writing'', ''https://developers.google.com/tech-writing'')]\<rparr>,
      \<lparr>name = ''Problem-Solving'', weight = 5, resources = [
          (''LeetCode Problems'', ''https://leetcode.com/problemset/all/''),
          (''HackerRank Challenges'', ''https://www.hackerrank.com/domains/algorithms'')]\<rparr>])]"

definition data_science_skills :: "skill_table" where
  "data_science_skills = [
    (''Technical'', [
      \<lparr>name = ''Python for Data Science'', weight = 5, resources = [
          (''Python for Data Science'', ''https://www.udemy.com/course/python-for-data-science-and-machine-learning-bootcamp/''),
          (''DataCamp Python Track'', ''https://www.datacamp.com/tracks/python-programmer'')]\<rparr>,
      \<lparr>name = ''Machine Learning'', weight = 4, resources = [
          (''Machine Learning A-Z'', ''https://www.udemy.com/course/machinelearning/''),
          (''Stanford ML Course'', ''https://www.coursera.org/learn/machine-learning'')]\<rparr>,
      \<lparr>name = ''Deep Learning'', weight = 3, resources = [
          (''Deep Learning Specialization'', ''https://www.coursera.org/specializations/deep-learning''),
          (''Fast.ai Course'', ''https://www.fast.ai/'')]\<rparr>,
      \<lparr>name = ''Statistical Analysis'', weight = 4, resources = [
          (''Statistics for Data Science'', ''https://www.coursera.org/specializations/statistics''),
          (''Khan Academy Statistics'', ''https://www.khanacademy.org/math/statistics-probability'')]\<rparr>]),
    (''Tools'', [
      \<lparr>name = ''SQL & Databases'', weight = 5, resources = [
          (''Complete SQL Bootcamp'', ''https://www.udemy.com/course/the-complete-sql-bootcamp/''),
          (''Mode SQL Tutorial'', ''https://mode.com/sql-tutorial/'')]\<rparr>,
      \<lparr>name = ''Jupyter & Data Tools'', weight = 4, resources = [
          (''Jupyter Tutorial'', ''https://jupyter.org/try''),
          (''Pandas Documentation'', ''https://pandas.pydata.org/docs/'')]\<rparr>,
      \<lparr>name = ''Visualization Tools'', weight = 4, resources = [
          (''Data Visualization Course'', ''https://www.coursera.org/learn/data-visualization''),
          (''Tableau Training'', ''https://www.tableau.com/learn/training'')]\<rparr>]),
    (''Soft Skills'', [
      \<lparr>name = ''Data Storytelling'', weight = 4, resources = [
          (''Data Storytelling Course'', ''https://www.coursera.org/learn/data-stories''),
          (''Storytelling with Data'', ''https://www.storytellingwithdata.com/'')]\<rparr>,
      \<lparr>name = ''Business Acumen'', weight = 4, resources = [
          (''Business Analytics'', ''https://www.coursera.org/specializations/business-analytics''),
          (''Harvard Business Review'', ''https://hbr.org/topic/analytics'')]\<rparr>,
      \<lparr>name = ''Research Methodology'', weight = 3, resources = [
          (''Research Methods Course'', ''https://www.coursera.org/learn/research-methods''),
          (''Google Scholar'', ''https://scholar.google.com/'')]\<rparr>])]"

definition industry_skills_table :: "(string \<times> skill_table) list" where
  "industry_skills_table =
     [(''Software Development'', software_development_skills),
      (''Data Science'', data_science_skills)]"

definition get_industry_skills :: "string \<Rightarrow> skill_table" where
  "get_industry_skills career_path = dict_get industry_skills_table career_path []"

subsection \<open>Skills-gap computation (\<^verbatim>\<open>display_skills_gap_analysis\<close>)\<close>

text \<open>\<^verbatim>\<open>st.session_state.skills_gap\<close>: category \<open>\<mapsto>\<close> (skill name \<open>\<mapsto>\<close> rating).\<close>

type_synonym ratings = "(string \<times> (string \<times> int) list) list"

record gap_entry =
  category :: string
  skill :: string
  gap :: int
  priority :: int
  gap_resources :: "resource list"

text \<open>
  The inner loop of lines 1292-1303 for one category, whose rating dict \<open>rs\<close> is
  \<^verbatim>\<open>st.session_state.skills_gap[category]\<close>.
\<close>

fun category_gaps :: "string \<Rightarrow> (string \<times> int) list \<Rightarrow> skill list \<Rightarrow> gap_entry list" where
  "category_gaps c rs [] = []"
| "category_gaps c rs (s # ss) =
     (let current_rating = dict_get rs (name s) 0;
          g = weight s - current_rating
      in if g > 0
         then \<lparr>category = c, skill = name s, gap = g, priority = g * weight s,
               gap_resources = resources s\<rparr> # category_gaps c rs ss
         else category_gaps c rs ss)"

text \<open>
  The outer loop. \<^verbatim>\<open>st.session_state.skills_gap[category]\<close> is read once per skill,
  so a category without skills is never looked up; a missing category raises KeyError.
\<close>

fun collect_gaps :: "skill_table \<Rightarrow> ratings \<Rightarrow> error + gap_entry list" where
  "collect_gaps [] sg = Inr []"
| "collect_gaps ((c, []) # rest) sg = collect_gaps rest sg"
| "collect_gaps ((c, s # ss) # rest) sg =
     (case map_of sg c of
        None \<Rightarrow> Inl KeyError
      | Some rs \<Rightarrow>
          (case collect_gaps rest sg of
             Inl e \<Rightarrow> Inl e
           | Inr gs \<Rightarrow> Inr (category_gaps c rs (s # ss) @ gs)))"

text \<open>Lines 1290-1306: the gaps, then \<^verbatim>\<open>all_gaps.sort(key=priority, reverse=True)\<close>.\<close>

definition all_gaps :: "skill_table \<Rightarrow> ratings \<Rightarrow> error + gap_entry list" where
  "all_gaps industry_skills sg =
     (case collect_gaps industry_skills sg of
        Inl e \<Rightarrow> Inl e
      | Inr gs \<Rightarrow> Inr (sort_reverse priority gs))"

text \<open>
  Lines 1351-1356. A skill counts as completed when its rating reaches
  \<^verbatim>\<open>industry_skills[category][0]["weight"]\<close>, the weight of the first skill of its
  category. The condition is evaluated once per skill, so the first skill exists
  whenever it is read.
\<close>

definition total_skills :: "skill_table \<Rightarrow> nat" where
  "total_skills industry_skills = sum_list (map (\<lambda>(c, ss). length ss) industry_skills)"

fun category_completed :: "(string \<times> int) list \<Rightarrow> skill list \<Rightarrow> nat" where
  "category_completed rs [] = 0"
| "category_completed rs (s0 # ss) =
     length (filter (\<lambda>skill_name. dict_get rs skill_name 0 \<ge> weight s0)
                    (map name (s0 # ss)))"

definition completed_skills :: "skill_table \<Rightarrow> ratings \<Rightarrow> nat" where
  "completed_skills industry_skills sg =
     sum_list (map (\<lambda>(c, ss). category_completed (dict_get sg c []) ss) industry_skills)"

text \<open>
  Line 1358, \<^verbatim>\<open>(completed_skills / total_skills) * 100\<close>, in exact rational
  arithmetic; dividing by zero raises.
\<close>

definition progress_percentage :: "skill_table \<Rightarrow> ratings \<Rightarrow> error + rat" where
  "progress_percentage industry_skills sg =
     (if total_skills industry_skills = 0 then Inl ZeroDivisionError
      else Inr (of_nat (completed_skills industry_skills sg)
                / of_nat (total_skills industry_skills) * 100))"

subsection \<open>Python values\<close>

text \<open>
  The values \<^verbatim>\<open>json.loads\<close> returns: \<open>JNull\<close> is Python's \<^verbatim>\<open>None\<close>, a number is
  the value of its literal, a \<open>JObj\<close> is a dict with its items in order.
\<close>

datatype json =
  JNull | JBool bool | JNum rat | JStr string | JArr "json list" | JObj "(string \<times> json) list"

text \<open>Truth value of a Python value, as \<^verbatim>\<open>if v:\<close> tests it.\<close>

fun truthy :: "json \<Rightarrow> bool" where
  "truthy JNull = False"
| "truthy (JBool b) = b"
| "truthy (JNum x) = (x \<noteq> 0)"
| "truthy (JStr s) = (s \<noteq> [])"
| "truthy (JArr xs) = (xs \<noteq> [])"
| "truthy (JObj kvs) = (kvs \<noteq> [])"

text \<open>Lists and dicts are unhashable: using one as a dict key raises TypeError.\<close>

fun hashable :: "json \<Rightarrow> bool" where
  "hashable (JArr xs) = False"
| "hashable (JObj kvs) = False"
| "hashable v = True"

text \<open>\<^verbatim>\<open>d.get(key)\<close> on a dict with string keys, for a key that is any Python value.\<close>

definition get_by_value :: "(string \<times> 'v) list \<Rightarrow> json \<Rightarrow> error + 'v option" where
  "get_by_value d key =
     (if \<not> hashable key then Inl TypeError
      else case key of JStr k \<Rightarrow> Inr (map_of d k) | _ \<Rightarrow> Inr None)"

text \<open>\<^verbatim>\<open>xs[i]\<close> with Python's negative indices.\<close>

definition py_index :: "'a list \<Rightarrow> int \<Rightarrow> error + 'a" where
  "py_index xs i =
     (if 0 \<le> i \<and> i < int (length xs) then Inr (xs ! nat i)
      else if i < 0 \<and> - i \<le> int (length xs) then Inr (xs ! nat (int (length xs) + i))
      else Inl IndexError)"

text \<open>\<^verbatim>\<open>xs.index(x)\<close>: the first position of \<open>x\<close>, ValueError when there is none.\<close>

fun list_index :: "'a list \<Rightarrow> 'a \<Rightarrow> error + nat" where
  "list_index [] x = Inl ValueError"
| "list_index (y # ys) x =
     (if y = x then Inr 0
      else case list_index ys x of Inl e \<Rightarrow> Inl e | Inr i \<Rightarrow> Inr (Suc i))"

text \<open>\<^verbatim>\<open>int(x)\<close> truncates towards zero.\<close>

definition py_int :: "rat \<Rightarrow> int" where
  "py_int x = (if x \<ge> 0 then \<lfloor>x\<rfloor> else \<lceil>x\<rceil>)"

text \<open>The decimal text of an integer, as an f-string prints it.\<close>

fun digits :: "nat \<Rightarrow> string" where
  "digits n =
     (if n < 10 then [''0123456789'' ! n]
      else digits (n div 10) @ [''0123456789'' ! (n mod 10)])"

declare digits.simps [simp del]

definition str_int :: "int \<Rightarrow> string" where
  "str_int i = (if i < 0 then ''-'' @ digits (nat (- i)) else digits (nat i))"

text \<open>\<^verbatim>\<open>needle in haystack\<close> on strings, and \<^verbatim>\<open>str.lower\<close> on ASCII letters.\<close>

fun starts_with :: "string \<Rightarrow> string \<Rightarrow> bool" where
  "starts_with [] hay = True"
| "starts_with (c # cs) [] = False"
| "starts_with (c # cs) (h # hay) = (c = h \<and> starts_with cs hay)"

fun contains :: "string \<Rightarrow> string \<Rightarrow> bool" where
  "contains needle [] = (needle = [])"
| "contains needle (h # hay) = (starts_with needle (h # hay) \<or> contains needle hay)"

definition lower_char :: "char \<Rightarrow> char" where
  "lower_char c =
     (let n = of_char c :: nat in if 65 \<le> n \<and> n \<le> 90 then char_of (n + 32) else c)"

definition lower :: "string \<Rightarrow> string" where
  "lower s = map lower_char s"

subsection \<open>The other static tables\<close>

record market =
  growth_rate :: int
  demand_score :: int
  min_salary :: int
  trending_skills :: "string list"
  job_postings_trend :: "int list"

record details =
  skills :: "string list"
  opportunities :: "string list"
  market_trends :: string

text \<open>A course of the roadmap table; one entry of the source has no \<^verbatim>\<open>platform\<close> key.\<close>

record course =
  course_name :: string
  platform :: "string option"
  url :: string

record module =
  topics :: "string list"
  courses :: "course list"
  projects :: "string list"

definition market_data :: "(string \<times> market) list" where
  "market_data = [
    (''Software Development'',
     \<lparr>growth_rate = 25, demand_score = 85, min_salary = 500000,
      trending_skills = [''Python'', ''JavaScript'', ''Cloud Computing'', ''DevOps''],
      job_postings_trend = [1200, 1350, 1500, 1800, 2100, 2400]\<rparr>),
    (''Data Science'',
     \<lparr>growth_rate = 28, demand_score = 90, min_salary = 600000,
      trending_skills = [''Python'', ''Machine Learning'', ''SQL'', ''Deep Learning''],
      job_postings_trend = [800, 1000, 1300, 1600, 2000, 2500]\<rparr>),
    (''Machine Learning Engineering'',
     \<lparr>growth_rate = 30, demand_score = 88, min_salary = 700000,
      trending_skills = [''TensorFlow'', ''PyTorch'', ''Computer Vision'', ''NLP''],
      job_postings_trend = [600, 800, 1100, 1500, 1900, 2300]\<rparr>),
    (''DevOps Engineering'',
     \<lparr>growth_rate = 22, demand_score = 82, min_salary = 600000,
      trending_skills = [''Docker'', ''Kubernetes'', ''AWS'', ''CI/CD''],
      job_postings_trend = [900, 1100, 1400, 1700, 2000, 2200]\<rparr>),
    (''Data Analytics'',
     \<lparr>growth_rate = 23, demand_score = 80, min_salary = 450000,
      trending_skills = [''SQL'', ''Python'', ''Tableau'', ''Power BI''],
      job_postings_trend = [1000, 1200, 1400, 1600, 1800, 2000]\<rparr>),
    (''Cybersecurity'',
     \<lparr>growth_rate = 32, demand_score = 92, min_salary = 550000,
      trending_skills = [''Network Security'', ''Ethical Hacking'', ''Security Tools'', ''Risk Assessment''],
      job_postings_trend = [900, 1100, 1400, 1800, 2200, 2600]\<rparr>),
    (''UI/UX Design'',
     \<lparr>growth_rate = 24, demand_score = 84, min_salary = 450000,
      trending_skills = [''Figma'', ''User Research'', ''Wireframing'', ''Design Systems''],
      job_postings_trend = [800, 1000, 1200, 1500, 1800, 2100]\<rparr>),
    (''Digital Marketing'',
     \<lparr>growth_rate = 20, demand_score = 78, min_salary = 400000,
      trending_skills = [''SEO'', ''Social Media'', ''Content Strategy'', ''Analytics''],
      job_postings_trend = [1100, 1300, 1500, 1700, 1900, 2100]\<rparr>),
    (''Product Management'',
     \<lparr>growth_rate = 27, demand_score = 86, min_salary = 800000,
      trending_skills = [''Agile'', ''Product Strategy'', ''User Stories'', ''Roadmapping''],
      job_postings_trend = [700, 900, 1200, 1500, 1800, 2200]\<rparr>),
    (''Business Analysis'',
     \<lparr>growth_rate = 21, demand_score = 79, min_salary = 450000,
      trending_skills = [''Requirements Gathering'', ''Process Modeling'', ''Data Analysis'', ''Stakeholder Management''],
      job_postings_trend = [800, 1000, 1200, 1400, 1600, 1900]\<rparr>),
    (''Technical Writing'',
     \<lparr>growth_rate = 18, demand_score = 75, min_salary = 400000,
      trending_skills = [''Documentation'', ''API Writing'', ''Content Management'', ''Information Architecture''],
      job_postings_trend = [500, 600, 800, 1000, 1200, 1400]\<rparr>),
    (''IT Project Management'',
     \<lparr>growth_rate = 24, demand_score = 83, min_salary = 700000,
      trending_skills = [''Project Planning'', ''Risk Management'', ''Team Leadership'', ''Budgeting''],
      job_postings_trend = [900, 1100, 1300, 1600, 1900, 2200]\<rparr>),
    (''IT Sales & Business Development'',
     \<lparr>growth_rate = 19, demand_score = 77, min_salary = 450000,
      trending_skills = [''Solution Selling'', ''CRM'', ''Relationship Building'', ''Technical Knowledge''],
      job_postings_trend = [700, 900, 1100, 1300, 1500, 1800]\<rparr>)]"

definition career_details :: "(string \<times> details) list" where
  "career_details = [
    (''Software Development'',
     \<lparr>skills = [''Programming Languages (Python, Java, JavaScript)'', ''Web Development'', ''Database Management'', ''Version Control'', ''Software Architecture''],
      opportunities = [''Full-stack Developer'', ''Backend Developer'', ''Mobile App Developer'', ''Cloud Solutions Engineer'', ''DevOps Engineer''],
      market_trends = ''High demand with 25% growth expected over next 5 years''\<rparr>),
    (''Data Science'',
     \<lparr>skills = [''Python'', ''Statistics'', ''Machine Learning'', ''Data Visualization'', ''Big Data Technologies''],
      opportunities = [''Data Scientist'', ''Machine Learning Engineer'', ''AI Researcher'', ''Business Intelligence Analyst'', ''Quantitative Analyst''],
      market_trends = ''Rapidly growing field with 28% projected growth''\<rparr>),
    (''Machine Learning Engineering'',
     \<lparr>skills = [''Deep Learning'', ''NLP'', ''Computer Vision'', ''Python'', ''Model Deployment'', ''MLOps''],
      opportunities = [''ML Engineer'', ''AI Developer'', ''Research Scientist'', ''Computer Vision Engineer'', ''NLP Engineer''],
      market_trends = ''Explosive growth with 30% increase in demand annually''\<rparr>),
    (''DevOps Engineering'',
     \<lparr>skills = [''Cloud Platforms'', ''CI/CD'', ''Container Orchestration'', ''Infrastructure as Code'', ''Monitoring Tools''],
      opportunities = [''DevOps Engineer'', ''Site Reliability Engineer'', ''Cloud Engineer'', ''Platform Engineer'', ''Infrastructure Engineer''],
      market_trends = ''Strong demand with 22% growth in job openings''\<rparr>),
    (''Data Analytics'',
     \<lparr>skills = [''SQL'', ''Data Visualization'', ''Statistical Analysis'', ''Excel'', ''Business Intelligence Tools''],
      opportunities = [''Data Analyst'', ''Business Intelligence Developer'', ''Marketing Analyst'', ''Financial Analyst'', ''Operations Analyst''],
      market_trends = ''Steady growth with 23% increase in opportunities''\<rparr>),
    (''Cybersecurity'',
     \<lparr>skills = [''Network Security'', ''Ethical Hacking'', ''Security Tools'', ''Risk Assessment'', ''Incident Response''],
      opportunities = [''Security Engineer'', ''Penetration Tester'', ''Security Analyst'', ''Security Consultant'', ''Security Architect''],
      market_trends = ''Critical growth area with 32% increase in demand''\<rparr>),
    (''UI/UX Design'',
     \<lparr>skills = [''User Research'', ''Wireframing'', ''Prototyping'', ''Visual Design'', ''Design Systems''],
      opportunities = [''UI Designer'', ''UX Designer'', ''Product Designer'', ''Interaction Designer'', ''Design System Specialist''],
      market_trends = ''Growing demand with 24% increase in opportunities''\<rparr>),
    (''Digital Marketing'',
     \<lparr>skills = [''SEO'', ''Social Media Marketing'', ''Content Strategy'', ''Analytics'', ''Email Marketing''],
      opportunities = [''Digital Marketing Manager'', ''SEO Specialist'', ''Content Strategist'', ''Social Media Manager'', ''Marketing Analyst''],
      market_trends = ''Steady growth with 20% increase in roles''\<rparr>),
    (''Product Management'',
     \<lparr>skills = [''Product Strategy'', ''User Stories'', ''Agile Methodologies'', ''Data Analysis'', ''Stakeholder Management''],
      opportunities = [''Product Manager'', ''Product Owner'', ''Technical Product Manager'', ''Growth Product Manager'', ''Senior Product Manager''],
      market_trends = ''High demand with 27% growth in opportunities''\<rparr>),
    (''Business Analysis'',
     \<lparr>skills = [''Requirements Gathering'', ''Process Modeling'', ''Data Analysis'', ''Documentation'', ''Stakeholder Management''],
      opportunities = [''Business Analyst'', ''Systems Analyst'', ''Process Analyst'', ''Agile Business Analyst'', ''Senior Business Analyst''],
      market_trends = ''Stable growth with 21% increase in positions''\<rparr>),
    (''Technical Writing'',
     \<lparr>skills = [''Documentation'', ''API Writing'', ''Information Architecture'', ''Content Management'', ''Research''],
      opportunities = [''Technical Writer'', ''Documentation Specialist'', ''API Documentation Writer'', ''Content Developer'', ''Knowledge Base Manager''],
      market_trends = ''Steady demand with 18% growth expected''\<rparr>),
    (''IT Project Management'',
     \<lparr>skills = [''Project Planning'', ''Risk Management'', ''Agile/Scrum'', ''Budgeting'', ''Team Leadership''],
      opportunities = [''IT Project Manager'', ''Program Manager'', ''Scrum Master'', ''Delivery Manager'', ''Technical Project Lead''],
      market_trends = ''Strong growth with 24% increase in demand''\<rparr>),
    (''IT Sales & Business Development'',
     \<lparr>skills = [''Solution Selling'', ''Relationship Building'', ''Technical Knowledge'', ''CRM'', ''Negotiation''],
      opportunities = [''Technical Sales Manager'', ''Solutions Consultant'', ''Business Development Manager'', ''Account Executive'', ''Sales Engineer''],
      market_trends = ''Consistent growth with 19% increase in opportunities''\<rparr>)]"

definition learning_paths :: "(string \<times> (string \<times> module) list) list" where
  "learning_paths = [
    (''Software Development'', [
      (''fundamentals'',
       \<lparr>topics = [''Programming Basics'', ''Data Structures'', ''Algorithms'', ''Git Version Control''],
        courses = [
          \<lparr>course_name = ''Complete Python Bootcamp'', platform = Some ''Udemy'',
           url = ''https://www.udemy.com/course/complete-python-bootcamp/''\<rparr>,
          \<lparr>course_name = ''Data Structures and Algorithms'', platform = Some ''Coursera'',
           url = ''https://www.coursera.org/specializations/data-structures-algorithms''\<rparr>],
        projects = [''Build a Calculator'', ''Create a Todo App'', ''Implement Basic Data Structures'']\<rparr>),
      (''core_skills'',
       \<lparr>topics = [''Web Development'', ''Database Management'', ''API Development''],
        courses = [
          \<lparr>course_name = ''The Web Developer Bootcamp'', platform = Some ''Udemy'',
           url = ''https://www.udemy.com/course/the-web-developer-bootcamp/''\<rparr>,
          \<lparr>course_name = ''Complete SQL Bootcamp'', platform = Some ''Udemy'',
           url = ''https://www.udemy.com/course/the-complete-sql-bootcamp/''\<rparr>],
        projects = [''Personal Portfolio Website'', ''RESTful API Service'', ''Database-driven Web App'']\<rparr>),
      (''specialized'',
       \<lparr>topics = [''Framework Expertise'', ''Cloud Services'', ''Testing''],
        courses = [
          \<lparr>course_name = ''React - The Complete Guide'', platform = Some ''Udemy'',
           url = ''https://www.udemy.com/course/react-the-complete-guide-incl-redux/''\<rparr>,
          \<lparr>course_name = ''AWS Certified Developer'', platform = Some ''Udemy'',
           url = ''https://www.udemy.com/course/aws-certified-developer-associate/''\<rparr>],
        projects = [''Full-stack E-commerce Site'', ''Cloud-deployed Application'', ''Mobile-responsive Web App'']\<rparr>)]),
    (''Data Science'', [
      (''fundamentals'',
       \<lparr>topics = [''Python Programming'', ''Statistics'', ''Linear Algebra'', ''Data Analysis''],
        courses = [
          \<lparr>course_name = ''Python for Data Science'', platform = Some ''Udemy'',
           url = ''https://www.udemy.com/course/python-for-data-science-and-machine-learning-bootcamp/''\<rparr>,
          \<lparr>course_name = ''Statistics for Data Science'', platform = Some ''Coursera'',
           url = ''https://www.coursera.org/specializations/statistics''\<rparr>],
        projects = [''Data Analysis with Pandas'', ''Statistical Analysis Project'', ''Data Visualization Dashboard'']\<rparr>),
      (''core_skills'',
       \<lparr>topics = [''Machine Learning'', ''Data Visualization'', ''Big Data Tools''],
        courses = [
          \<lparr>course_name = ''Machine Learning A-Z'', platform = None,
           url = ''https://www.udemy.com/course/machinelearning/''\<rparr>,
          \<lparr>course_name = ''Deep Learning Specialization'', platform = Some ''Coursera'',
           url = ''https://www.coursera.org/specializations/deep-learning''\<rparr>],
        projects = [''Predictive Analysis Model'', ''Customer Segmentation'', ''Time Series Forecasting'']\<rparr>),
      (''specialized'',
       \<lparr>topics = [''Deep Learning'', ''Natural Language Processing'', ''Computer Vision''],
        courses = [
          \<lparr>course_name = ''TensorFlow Developer Certificate'', platform = Some ''Udemy'',
           url = ''https://www.udemy.com/course/tensorflow-developer-certificate-machine-learning-zero-to-mastery/''\<rparr>,
          \<lparr>course_name = ''NLP Specialization'', platform = Some ''Coursera'',
           url = ''https://www.coursera.org/specializations/natural-language-processing''\<rparr>],
        projects = [''Image Classification System'', ''Sentiment Analysis Tool'', ''Recommendation Engine'']\<rparr>)])]"
text \<open>\<^verbatim>\<open>fetch_job_market_data\<close>: \<^verbatim>\<open>market_data.get(career_path, {})\<close>.\<close>

definition fetch_job_market_data :: "json \<Rightarrow> error + market option" where
  "fetch_job_market_data career_path = get_by_value market_data career_path"

definition profile_questions :: "(string \<times> string) list" where
  "profile_questions =
     [(''Full Name'', ''What is your full name?''),
      (''Age'', ''What is your age?''),
      (''Education'', ''What is your current education level and field of study?''),
      (''Technical Background'', ''What is your current technical background or experience?'')]"

definition career_preference_questions :: "(string \<times> string) list" where
  "career_preference_questions =
     [(''interests'', ''What aspects of technology interest you the most? (e.g., coding, data analysis, system design)''),
      (''work_style'', ''Do you prefer working independently or in teams?''),
      (''learning_style'', ''How do you prefer to learn new skills?''),
      (''career_goals'', ''What are your long-term career goals in the tech industry?'')]"

definition pages :: "string list" where
  "pages = [''Profile Setup'', ''Career Assessment'', ''Career Recommendations'',
            ''Learning Roadmap'', ''Skills Gap Analysis'', ''Live AI Consultation'']"

subsection \<open>The session store\<close>

text \<open>The handle \<^verbatim>\<open>agents.model.start_chat(history=[])\<close> returns, by its history.\<close>

datatype chat = Chat "(string \<times> string) list"

text \<open>
  \<^verbatim>\<open>st.session_state\<close>. Every slot is optional: \<open>None\<close> means that the key is not in
  the store. The slot \<open>selected_career_path\<close> holds a Python value, \<open>JNull\<close> for
  \<^verbatim>\<open>None\<close>. The last four slots are created by the pages that use them.
\<close>

record session_state =
  chat_session :: "chat option"
  chat_stage :: "int option"
  user_data :: "(string \<times> string) list option"
  career_preferences :: "(string \<times> string) list option"
  skills_assessment :: "(string \<times> string) list option"
  career_path_recommendations :: "json list option"
  selected_career_path :: "json option"
  learning_roadmap :: "json option"
  page :: "string option"
  learning_progress :: "(string \<times> int) list option"
  consultation_history :: "(string \<times> string) list option"
  skills_gap :: "ratings option"
  break_duration :: "rat option"

text \<open>The store of a new browser session, and the store after \<^verbatim>\<open>clear()\<close>.\<close>

definition empty_state :: session_state where
  "empty_state =
     \<lparr>chat_session = None, chat_stage = None, user_data = None, career_preferences = None,
      skills_assessment = None, career_path_recommendations = None,
      selected_career_path = None, learning_roadmap = None, page = None,
      learning_progress = None, consultation_history = None, skills_gap = None,
      break_duration = None\<rparr>"

text \<open>Lines 28-43: a default is stored only for a key that is not in the store.\<close>

definition setdefault :: "'a option \<Rightarrow> 'a \<Rightarrow> 'a option" where
  "setdefault slot dflt = (case slot of None \<Rightarrow> Some dflt | Some v \<Rightarrow> Some v)"

definition initialize_session_state :: "session_state \<Rightarrow> session_state" where
  "initialize_session_state s =
     s\<lparr>chat_session := setdefault (chat_session s) (Chat []),
       chat_stage := setdefault (chat_stage s) 0,
       user_data := setdefault (user_data s) [],
       career_preferences := setdefault (career_preferences s) [],
       skills_assessment := setdefault (skills_assessment s) [],
       career_path_recommendations := setdefault (career_path_recommendations s) [],
       selected_career_path := setdefault (selected_career_path s) JNull,
       learning_roadmap := setdefault (learning_roadmap s) JNull\<rparr>"

text \<open>Lines 57-58.\<close>

definition initialize_page :: "session_state \<Rightarrow> session_state" where
  "initialize_page s = s\<lparr>page := setdefault (page s) ''Profile Setup''\<rparr>"

subsection \<open>Widgets and the external model\<close>

text \<open>
  What the generation call and \<^verbatim>\<open>json.loads\<close> give in one run: the call raises, the
  reply is not JSON text, or the reply decodes to a value.
\<close>

datatype reply = CallError | NotJson | Decoded json

text \<open>
  The inputs of one script run: what each widget returns, by its key or label, and
  what the external model answers. A choice widget gives the position the user picked,
  a slider or number input the value the user set; \<open>None\<close> is a widget left at its
  default. A button is \<open>True\<close> in the run its click triggers.
\<close>

record inputs =
  radio :: "string \<Rightarrow> nat option"
  selectbox :: "string \<Rightarrow> nat option"
  button :: "string \<Rightarrow> bool"
  form_submit_button :: "string \<Rightarrow> bool"
  text_input :: "string \<Rightarrow> string"
  text_area :: "string \<Rightarrow> string"
  slider :: "string \<Rightarrow> int option"
  number_input :: "string \<Rightarrow> rat option"
  chat_input :: "string option"
  recommendations_reply :: reply
  consultation_reply :: "string option"

text \<open>
  \<^verbatim>\<open>st.radio\<close> and \<^verbatim>\<open>st.selectbox\<close> return the option at the picked position, the one
  at the default \<open>index\<close> when nothing (or nothing valid) was picked, and Python's
  \<^verbatim>\<open>None\<close> when there is no option.
\<close>

definition choice :: "'a list \<Rightarrow> nat \<Rightarrow> nat option \<Rightarrow> 'a option" where
  "choice options index picked =
     (let i = (case picked of None \<Rightarrow> index
               | Some j \<Rightarrow> if j < length options then j else index)
      in if i < length options then Some (options ! i) else None)"

definition widget_value :: "'a option \<Rightarrow> 'a \<Rightarrow> 'a" where
  "widget_value moved dflt = (case moved of None \<Rightarrow> dflt | Some v \<Rightarrow> v)"

subsection \<open>What a run renders and how it ends\<close>

text \<open>
  The elements a page writes, in order. Decorative HTML and the pictographs of labels
  are left out; rendering calls are taken to return normally.
\<close>

datatype element =
    Header string | Subheader string | Write string | Warning string | Success string
  | ErrorMessage string | Button string | Form string | TextInput string | TextArea string
  | Radio string | Selectbox string | Slider string int | NumberInput string rat
  | ChatMessage string string | ProgressBar int
  | PathHeading json | MarketTrends market | PathDetails details
  | Topic string | Project string | Course string string string
  | GapBadge string int | Proficient string | RadarChart string
  | PriorityList "gap_entry list" | OverallProgress rat

text \<open>
  A run ends normally, with \<^verbatim>\<open>st.rerun()\<close>, or with an exception. The store keeps
  what was written before the run ended, whichever way it ended.
\<close>

datatype ending = Done | Rerun | Raised error

type_synonym run = "session_state \<times> element list \<times> ending"

definition state_of :: "run \<Rightarrow> session_state" where
  "state_of r = fst r"

definition rendered :: "run \<Rightarrow> element list" where
  "rendered r = fst (snd r)"

definition ending_of :: "run \<Rightarrow> ending" where
  "ending_of r = snd (snd r)"

subsection \<open>The sidebar (lines 61-94)\<close>

text \<open>
  The radio shows the current page; picking another one stores it and reruns. The
  Start Fresh button clears the store, stores the first page and reruns.
\<close>

definition start_fresh :: "session_state \<Rightarrow> session_state" where
  "start_fresh s = empty_state\<lparr>page := Some ''Profile Setup''\<rparr>"

definition sidebar :: "inputs \<Rightarrow> session_state \<Rightarrow> run" where
  "sidebar w s =
     (case page s of
        None \<Rightarrow> (s, [], Raised AttributeError)
      | Some p \<Rightarrow>
          (case list_index pages p of
             Inl e \<Rightarrow> (s, [], Raised e)
           | Inr i \<Rightarrow>
               (case choice pages i (radio w ''Choose a section:'') of
                  None \<Rightarrow> (s, [], Raised IndexError)
                | Some current_page \<Rightarrow>
                    if current_page \<noteq> p
                    then (s\<lparr>page := Some current_page\<rparr>, [Radio ''Choose a section:''], Rerun)
                    else if button w ''Start Fresh''
                    then (start_fresh s,
                          [Radio ''Choose a section:'', Button ''Start Fresh''], Rerun)
                    else (s, [Radio ''Choose a section:'', Button ''Start Fresh''], Done))))"

subsection \<open>Profile Setup (lines 112-146)\<close>

text \<open>What the page writes: the progress and the stored answers (lines 113-123),\<close>

definition profile_summary :: "int \<Rightarrow> (string \<times> string) list \<Rightarrow> element list" where
  "profile_summary stage ud =
     [Header ''Profile Setup'',
      ProgressBar (py_int (of_int stage / of_nat (length profile_questions) * 100))]
     @ (if ud \<noteq> []
        then Subheader ''Your Profile Information:''
             # map (\<lambda>(key, v). Write (''**'' @ key @ '':** '' @ v)) ud
        else [])"

text \<open>the form of the current question (lines 129-136),\<close>

definition profile_input_key :: "int \<Rightarrow> string" where
  "profile_input_key stage = ''profile_input_'' @ str_int stage"

definition profile_form :: "int \<Rightarrow> string \<Rightarrow> element list" where
  "profile_form stage question =
     [Subheader ''Please Answer:'', ChatMessage ''assistant'' question,
      Form (''profile_form_'' @ str_int stage), TextInput (profile_input_key stage)]"

text \<open>and the completion message (lines 143-144).\<close>

definition profile_completed :: "element list" where
  "profile_completed =
     [Success ''Profile setup completed! Please proceed to Career Assessment.'',
      Button ''Go to Career Assessment'']"

definition display_profile_setup :: "inputs \<Rightarrow> session_state \<Rightarrow> run" where
  "display_profile_setup w s =
     (case chat_stage s of
        None \<Rightarrow> (s, [Header ''Profile Setup''], Raised AttributeError)
      | Some stage \<Rightarrow>
      (case user_data s of
        None \<Rightarrow> (s, [Header ''Profile Setup''], Raised AttributeError)
      | Some ud \<Rightarrow>
          if stage < int (length profile_questions) then
            (case py_index profile_questions stage of
               Inl e \<Rightarrow> (s, profile_summary stage ud, Raised e)
             | Inr (key, question) \<Rightarrow>
                 let user_input = text_input w (profile_input_key stage);
                     submit_button = form_submit_button w ''Submit''
                 in
                 if submit_button \<and> user_input \<noteq> []
                 then (s\<lparr>user_data := Some (AList.update key user_input ud),
                         chat_stage := Some (stage + 1)\<rparr>,
                       profile_summary stage ud @ profile_form stage question, Rerun)
                 else (s, profile_summary stage ud @ profile_form stage question, Done))
          else
            if button w ''Go to Career Assessment''
            then (s\<lparr>page := Some ''Career Assessment''\<rparr>,
                  profile_summary stage ud @ profile_completed, Rerun)
            else (s, profile_summary stage ud @ profile_completed, Done)))"

subsection \<open>Career Assessment (lines 148-201)\<close>

text \<open>
  Lines 169-177: one text area, and one entry of \<^verbatim>\<open>responses\<close>, for each question
  whose key is not in \<^verbatim>\<open>career_preferences\<close>.
\<close>

definition responses :: "inputs \<Rightarrow> (string \<times> string) list \<Rightarrow> (string \<times> string) list" where
  "responses w prefs =
     map (\<lambda>(key, question). (key, text_area w (''career_pref_'' @ key)))
         (filter (\<lambda>(key, question). map_of prefs key = None) career_preference_questions)"

text \<open>Lines 183-185: only a non-empty response is stored.\<close>

fun update_preferences ::
  "(string \<times> string) list \<Rightarrow> (string \<times> string) list \<Rightarrow> (string \<times> string) list" where
  "update_preferences [] prefs = prefs"
| "update_preferences ((key, response) # rest) prefs =
     update_preferences rest
       (if response \<noteq> [] then AList.update key response prefs else prefs)"

text \<open>
  Lines 189-194: each stored answer is shown with its question; a stored key that is
  no question key raises KeyError.
\<close>

fun show_preferences :: "(string \<times> string) list \<Rightarrow> element list \<times> error option" where
  "show_preferences [] = ([], None)"
| "show_preferences ((key, v) # rest) =
     (case map_of career_preference_questions key of
        None \<Rightarrow> ([], Some KeyError)
      | Some question \<Rightarrow>
          (let (out, e) = show_preferences rest
           in (Write (''**Question:** '' @ question) # Write (''**Your Answer:** '' @ v) # out, e)))"

text \<open>What the page writes: the guidance of lines 152-153,\<close>

definition profile_missing :: "element list" where
  "profile_missing =
     [Warning ''Please complete your profile setup first!'', Button ''Go to Profile Setup'']"

text \<open>the form of lines 159-179,\<close>

definition assessment_form :: "(string \<times> string) list \<Rightarrow> (string \<times> string) list \<Rightarrow> element list" where
  "assessment_form prefs rs =
     [Header ''Career Assessment'',
      ProgressBar (py_int (of_nat (length prefs)
                           / of_nat (length career_preference_questions) * 100)),
      Form ''career_assessment_form'', Subheader ''Career Preferences Assessment'']
     @ map (\<lambda>(key, r). TextArea (''career_pref_'' @ key)) rs"

text \<open>the stored answers (lines 189-194) and the completion message (lines 198-199).\<close>

definition assessment_answers :: "(string \<times> string) list \<Rightarrow> element list" where
  "assessment_answers prefs =
     (if prefs \<noteq> []
      then Subheader ''Your Career Preferences:'' # fst (show_preferences prefs) else [])"

definition assessment_completed :: "element list" where
  "assessment_completed =
     [Success ''Career assessment completed! You can now view your career recommendations.'',
      Button ''View Career Recommendations'']"

definition display_career_assessment :: "inputs \<Rightarrow> session_state \<Rightarrow> run" where
  "display_career_assessment w s =
     (case user_data s of
        None \<Rightarrow> (s, [Header ''Career Assessment''], Raised AttributeError)
      | Some ud \<Rightarrow>
          if ud = [] then
            (if button w ''Go to Profile Setup''
             then (s\<lparr>page := Some ''Profile Setup''\<rparr>,
                   Header ''Career Assessment'' # profile_missing, Rerun)
             else (s, Header ''Career Assessment'' # profile_missing, Done))
          else
          (case career_preferences s of
             None \<Rightarrow> (s, [Header ''Career Assessment''], Raised AttributeError)
           | Some prefs \<Rightarrow>
               let total_questions = length career_preference_questions;
                   rs = responses w prefs
               in
               if form_submit_button w ''Submit Responses''
               then (s\<lparr>career_preferences := Some (update_preferences rs prefs)\<rparr>,
                     assessment_form prefs rs, Rerun)
               else
                 (case (if prefs \<noteq> [] then snd (show_preferences prefs) else None) of
                    Some err \<Rightarrow>
                      (s, assessment_form prefs rs @ assessment_answers prefs, Raised err)
                  | None \<Rightarrow>
                      if length prefs = total_questions then
                        (if button w ''View Career Recommendations''
                         then (s\<lparr>page := Some ''Career Recommendations''\<rparr>,
                               assessment_form prefs rs @ assessment_answers prefs
                               @ assessment_completed, Rerun)
                         else (s, assessment_form prefs rs @ assessment_answers prefs
                                  @ assessment_completed, Done))
                      else (s, assessment_form prefs rs @ assessment_answers prefs, Done))))"

subsection \<open>Career Recommendations (lines 377-459)\<close>

text \<open>\<^verbatim>\<open>recommendations_data["recommended_paths"]\<close> and \<^verbatim>\<open>path["career_path"]\<close>.\<close>

fun subscript :: "json \<Rightarrow> string \<Rightarrow> error + json" where
  "subscript (JObj kvs) key = (case map_of kvs key of None \<Rightarrow> Inl KeyError | Some v \<Rightarrow> Inr v)"
| "subscript v key = Inl TypeError"

text \<open>
  What \<^verbatim>\<open>for path in v\<close> runs over: the elements of a list, the keys of a dict, the
  characters of a string; any other value is not iterable.
\<close>

fun iterate :: "json \<Rightarrow> error + json list" where
  "iterate (JArr xs) = Inr xs"
| "iterate (JObj kvs) = Inr (map (\<lambda>(k, v). JStr k) kvs)"
| "iterate (JStr cs) = Inr (map (\<lambda>c. JStr [c]) cs)"
| "iterate v = Inl TypeError"

fun career_paths :: "json list \<Rightarrow> error + json list" where
  "career_paths [] = Inr []"
| "career_paths (path # rest) =
     (case subscript path ''career_path'' of
        Inl e \<Rightarrow> Inl e
      | Inr p \<Rightarrow> (case career_paths rest of Inl e \<Rightarrow> Inl e | Inr ps \<Rightarrow> Inr (p # ps)))"

text \<open>Lines 387-390, on the decoded reply.\<close>

definition recommended_paths :: "json \<Rightarrow> error + json list" where
  "recommended_paths recommendations_data =
     (case subscript recommendations_data ''recommended_paths'' of
        Inl e \<Rightarrow> Inl e
      | Inr v \<Rightarrow> (case iterate v of Inl e \<Rightarrow> Inl e | Inr paths \<Rightarrow> career_paths paths))"

text \<open>
  The body of the \<^verbatim>\<open>try\<close>, lines 383-390: the call reads \<^verbatim>\<open>user_data\<close>, the reply
  is decoded and the names are taken from it.
\<close>

definition generate_recommendations :: "inputs \<Rightarrow> session_state \<Rightarrow> error + json list" where
  "generate_recommendations w s =
     (case user_data s of
        None \<Rightarrow> Inl AttributeError
      | Some ud \<Rightarrow>
          (case recommendations_reply w of
             CallError \<Rightarrow> Inl ValueError
           | NotJson \<Rightarrow> Inl ValueError
           | Decoded recommendations_data \<Rightarrow> recommended_paths recommendations_data))"

definition technical_names :: "string list" where
  "technical_names =
     [''Software Development'', ''Data Science'', ''Machine Learning Engineering'',
      ''DevOps Engineering'', ''Data Analytics'', ''Cybersecurity'', ''UI/UX Design'']"

definition non_technical_names :: "string list" where
  "non_technical_names =
     [''Digital Marketing'', ''Product Management'', ''Business Analysis'',
      ''Technical Writing'', ''IT Project Management'', ''IT Sales & Business Development'']"

text \<open>The list of lines 393-409, stored by the bare \<^verbatim>\<open>except\<close>.\<close>

definition fallback_recommendations :: "json list" where
  "fallback_recommendations =
     map JStr
       [''Software Development'', ''Data Science'', ''Machine Learning Engineering'',
        ''DevOps Engineering'', ''Data Analytics'', ''Cybersecurity'', ''UI/UX Design'',
        ''Digital Marketing'', ''Product Management'', ''Business Analysis'',
        ''Technical Writing'', ''IT Project Management'', ''IT Sales & Business Development'']"

text \<open>Lines 424-431: \<^verbatim>\<open>[path for path in all_paths if path in [...]]\<close>.\<close>

definition technical_paths :: "json list \<Rightarrow> json list" where
  "technical_paths all_paths = filter (\<lambda>path. path \<in> set (map JStr technical_names)) all_paths"

definition non_technical_paths :: "json list \<Rightarrow> json list" where
  "non_technical_paths all_paths =
     filter (\<lambda>path. path \<in> set (map JStr non_technical_names)) all_paths"

text \<open>Lines 379-409: the call is made when no recommendation is stored and preferences are.\<close>

definition load_recommendations :: "inputs \<Rightarrow> session_state \<Rightarrow> error + session_state" where
  "load_recommendations w s =
     (case career_path_recommendations s of
        None \<Rightarrow> Inl AttributeError
      | Some recs \<Rightarrow>
          if recs = [] then
            (case career_preferences s of
               None \<Rightarrow> Inl AttributeError
             | Some prefs \<Rightarrow>
                 if prefs \<noteq> [] then
                   (case generate_recommendations w s of
                      Inr paths \<Rightarrow> Inr (s\<lparr>career_path_recommendations := Some paths\<rparr>)
                    | Inl e \<Rightarrow>
                        Inr (s\<lparr>career_path_recommendations := Some fallback_recommendations\<rparr>))
                 else Inr s)
          else Inr s)"

text \<open>Lines 411-448: the category filter and the choice of a path.\<close>

definition path_selection :: "element list" where
  "path_selection =
     [Subheader ''Career Path Category'', Radio ''Select your preferred category:'',
      Subheader ''Select Career Path'', Selectbox ''Select Career Path'']"

definition select_career_path :: "inputs \<Rightarrow> session_state \<Rightarrow> error + session_state \<times> element list" where
  "select_career_path w s =
     (case career_path_recommendations s of
        None \<Rightarrow> Inl AttributeError
      | Some all_paths \<Rightarrow>
          if all_paths \<noteq> [] then
            (let category = choice [''All Careers'', ''Technical Careers'', ''Non-Technical Careers'']
                              0 (radio w ''Select your preferred category:'');
                 paths_to_show =
                   (if category = Some ''Technical Careers'' then technical_paths all_paths
                    else if category = Some ''Non-Technical Careers''
                    then non_technical_paths all_paths
                    else all_paths);
                 selected_path =
                   (case choice paths_to_show 0 (selectbox w ''Select Career Path'') of
                      None \<Rightarrow> JNull | Some p \<Rightarrow> p)
             in if truthy selected_path
                then Inr (s\<lparr>selected_career_path := Some selected_path\<rparr>, path_selection)
                else Inr (s, path_selection))
          else Inr (s, []))"

text \<open>Lines 450-459 with \<^verbatim>\<open>display_career_path_details\<close>.\<close>

definition show_selected_path :: "session_state \<Rightarrow> element list \<times> error option" where
  "show_selected_path s =
     (case selected_career_path s of
        None \<Rightarrow> ([], Some AttributeError)
      | Some sel \<Rightarrow>
          if truthy sel then
            (case fetch_job_market_data sel of
               Inl e \<Rightarrow> ([PathHeading sel], Some e)
             | Inr md \<Rightarrow>
                 (let out = [PathHeading sel]
                        @ (case md of None \<Rightarrow> [] | Some m \<Rightarrow> [MarketTrends m])
                  in case get_by_value career_details sel of
                       Inl e \<Rightarrow> (out, Some e)
                     | Inr cd \<Rightarrow>
                         (out @ (case cd of None \<Rightarrow> [] | Some d \<Rightarrow> [PathDetails d]), None)))
          else ([], None))"

definition display_career_recommendations :: "inputs \<Rightarrow> session_state \<Rightarrow> run" where
  "display_career_recommendations w s =
     (case load_recommendations w s of
        Inl e \<Rightarrow> (s, [Header ''Career Path Recommendations''], Raised e)
      | Inr s1 \<Rightarrow>
          (case select_career_path w s1 of
             Inl e \<Rightarrow> (s1, [Header ''Career Path Recommendations''], Raised e)
           | Inr (s2, out1) \<Rightarrow>
               (case show_selected_path s2 of
                  (out2, Some e) \<Rightarrow>
                    (s2, Header ''Career Path Recommendations'' # out1 @ out2, Raised e)
                | (out2, None) \<Rightarrow>
                    (s2, Header ''Career Path Recommendations'' # out1 @ out2, Done))))"

subsection \<open>Learning Roadmap (lines 552-923)\<close>

text \<open>
  Lines 706-717: one slider for each entry of \<^verbatim>\<open>learning_progress\<close>, inside one of
  the three columns; its value is stored back.
\<close>

fun track_progress ::
  "inputs \<Rightarrow> nat \<Rightarrow> (string \<times> int) list
     \<Rightarrow> (string \<times> int) list \<times> element list \<times> error option" where
  "track_progress w idx [] = ([], [], None)"
| "track_progress w idx ((stage, progress) # rest) =
     (if idx \<ge> 3 then ((stage, progress) # rest, [], Some IndexError)
      else
        let new_progress = widget_value (slider w (''progress_'' @ stage)) progress;
            status = (if new_progress < 30 then ''Getting Started''
                      else if new_progress < 70 then ''In Progress'' else ''Advanced'');
            (rest', out, e) = track_progress w (Suc idx) rest
        in ((stage, new_progress) # rest',
            Slider (''progress_'' @ stage) new_progress # Write status # out, e))"

text \<open>Lines 849-864: a course is shown with its platform; a course without one raises.\<close>

fun show_courses :: "course list \<Rightarrow> element list \<times> error option" where
  "show_courses [] = ([], None)"
| "show_courses (c # cs) =
     (case platform c of
        None \<Rightarrow> ([], Some KeyError)
      | Some p \<Rightarrow>
          (let (out, e) = show_courses cs in (Course (course_name c) p (url c) # out, e)))"

fun show_resources :: "(string \<times> module) list \<Rightarrow> element list \<times> error option" where
  "show_resources [] = ([], None)"
| "show_resources ((stage, content) # rest) =
     (case show_courses (courses content) of
        (out, Some e) \<Rightarrow> (out, Some e)
      | (out, None) \<Rightarrow> (let (out', e) = show_resources rest in (out @ out', e)))"

text \<open>What the page writes: the guidance of lines 556-557,\<close>

definition path_missing :: "element list" where
  "path_missing =
     [Header ''Personalized Learning Roadmap'',
      Warning ''Please select a career path from the Career Recommendations section first!'',
      Button ''Go to Career Recommendations'']"

text \<open>the heading and the progress sliders (lines 562-740),\<close>

definition roadmap_heading :: "json \<Rightarrow> element list \<Rightarrow> element list" where
  "roadmap_heading sel sliders =
     [Header ''Personalized Learning Roadmap'', PathHeading sel] @ sliders"

text \<open>and the first two tabs of the chosen roadmap (lines 808-845).\<close>

definition roadmap_modules :: "(string \<times> module) list \<Rightarrow> element list" where
  "roadmap_modules career_path =
     concat (map (\<lambda>(stage, content). map Topic (topics content)) career_path)
     @ [Subheader ''Hands-on Projects'']
     @ concat (map (\<lambda>(stage, content). map Project (projects content)) career_path)
     @ [Subheader ''Learning Resources'']"

definition display_learning_roadmap :: "inputs \<Rightarrow> session_state \<Rightarrow> run" where
  "display_learning_roadmap w s =
     (case selected_career_path s of
        None \<Rightarrow> (s, [Header ''Personalized Learning Roadmap''], Raised AttributeError)
      | Some sel \<Rightarrow>
          if \<not> truthy sel then
            (if button w ''Go to Career Recommendations''
             then (s\<lparr>page := Some ''Career Recommendations''\<rparr>, path_missing, Rerun)
             else (s, path_missing, Done))
          else
            (case track_progress w 0
                    (case learning_progress s of
                       None \<Rightarrow> [(''fundamentals'', 0), (''core_skills'', 0), (''specialized'', 0)]
                     | Some lp \<Rightarrow> lp) of
               (lp', sliders, Some err) \<Rightarrow>
                 (s\<lparr>learning_progress := Some lp'\<rparr>, roadmap_heading sel sliders, Raised err)
             | (lp', sliders, None) \<Rightarrow>
                 (case get_by_value learning_paths sel of
                    Inl err \<Rightarrow>
                      (s\<lparr>learning_progress := Some lp'\<rparr>, roadmap_heading sel sliders,
                       Raised err)
                  | Inr found \<Rightarrow>
                      (let career_path =
                             (case found of
                                None \<Rightarrow> dict_get learning_paths ''Software Development'' []
                              | Some cp \<Rightarrow> cp)
                       in
                       case show_resources career_path of
                         (out, Some err) \<Rightarrow>
                           (s\<lparr>learning_progress := Some lp'\<rparr>,
                            roadmap_heading sel sliders @ roadmap_modules career_path @ out,
                            Raised err)
                       | (out, None) \<Rightarrow>
                           (s\<lparr>learning_progress := Some lp'\<rparr>,
                            roadmap_heading sel sliders @ roadmap_modules career_path @ out,
                            Done)))))"

subsection \<open>Live AI Consultation (lines 925-1006)\<close>

text \<open>Lines 963-971: the canned answer chosen by the words of the question.\<close>

definition keyword_response :: "string \<Rightarrow> string" where
  "keyword_response user_question =
     (let keywords = lower user_question in
      if contains ''career'' keywords \<or> contains ''job'' keywords
      then ''Based on current market trends, there are many promising career paths in technology. Consider exploring roles in Software Development, Data Science, or Cybersecurity. Each of these fields offers strong growth potential and competitive salaries. Would you like to learn more about any specific career path?''
      else if contains ''skill'' keywords \<or> contains ''learn'' keywords
      then ''To build a successful tech career, focus on both technical and soft skills. Key technical skills include programming languages, data analysis, and cloud computing. Important soft skills are problem-solving, communication, and adaptability. What specific skills are you interested in developing?''
      else if contains ''salary'' keywords \<or> contains ''pay'' keywords
      then ''Salaries in tech careers vary by role, location, and experience. Entry-level positions typically range from $50,000 to $80,000, while experienced professionals can earn $100,000+. Would you like to see detailed salary information for specific roles?''
      else ''I understand you'' @ [CHR 0x27] @ ''re interested in career guidance. Could you please be more specific about what you'' @ [CHR 0x27] @ ''d like to know? For example, you can ask about specific career paths, required skills, or salary expectations.'')"

definition career_keywords :: "string list" where
  "career_keywords =
     [''software'', ''data'', ''machine learning'', ''devops'', ''analytics'',
      ''cybersecurity'', ''ui/ux'']"

text \<open>Lines 953-971: the answer to a question.\<close>

definition consultation_response :: "inputs \<Rightarrow> (string \<times> string) list \<Rightarrow> string \<Rightarrow> string" where
  "consultation_response w ud user_question =
     (if ud = []
      then ''Please complete your profile setup first to get personalized career advice. This will help me provide more relevant guidance based on your background and interests.''
      else case consultation_reply w of
             Some response \<Rightarrow> response
           | None \<Rightarrow> keyword_response user_question)"

text \<open>Line 985: whether the answer names a career.\<close>

definition mentions_career :: "string \<Rightarrow> bool" where
  "mentions_career response =
     list_ex (\<lambda>keyword. contains keyword (lower response)) career_keywords"

text \<open>What the page writes: the message of line 999 and the quick actions.\<close>

definition apology :: element where
  "apology =
     ErrorMessage ''I apologize, but I encountered an error. Please try rephrasing your question.''"

definition quick_actions :: "element list" where
  "quick_actions = [Write ''Quick Actions:'', Button ''View Career Details'']"

text \<open>Lines 940-1000, for a submitted question.\<close>

definition answer_question :: "inputs \<Rightarrow> session_state \<Rightarrow> string \<Rightarrow> run" where
  "answer_question w s user_question =
     (let history = (case consultation_history s of None \<Rightarrow> [] | Some h \<Rightarrow> h);
          s1 = s\<lparr>consultation_history := Some (history @ [(''user'', user_question)])\<rparr>
      in
      case user_data s1 of
        None \<Rightarrow> (s1, [ChatMessage ''user'' user_question, apology], Done)
      | Some ud \<Rightarrow>
          (let response = consultation_response w ud user_question;
               s2 = s1\<lparr>consultation_history :=
                          Some (history @ [(''user'', user_question), (''assistant'', response)])\<rparr>;
               out = [ChatMessage ''user'' user_question, ChatMessage ''assistant'' response]
           in
           if mentions_career response then
             (if button w ''View Career Details''
              then (s2\<lparr>page := Some ''Career Recommendations''\<rparr>, out @ quick_actions, Rerun)
              else if button w ''See Learning Roadmap''
              then (s2\<lparr>page := Some ''Learning Roadmap''\<rparr>,
                    out @ quick_actions @ [Button ''See Learning Roadmap''], Rerun)
              else (s2, out @ quick_actions @ [Button ''See Learning Roadmap''], Done))
           else (s2, out, Done)))"

definition consultation_heading :: "(string \<times> string) list \<Rightarrow> element list" where
  "consultation_heading history =
     [Header ''Live AI Career Consultation'',
      Write ''Chat with our AI career advisor for personalized guidance'']
     @ map (\<lambda>(role, content). ChatMessage role content) history"

definition display_live_consultation :: "inputs \<Rightarrow> session_state \<Rightarrow> run" where
  "display_live_consultation w s =
     (let history = (case consultation_history s of None \<Rightarrow> [] | Some h \<Rightarrow> h);
          s0 = s\<lparr>consultation_history := Some history\<rparr>
      in
      case (case chat_input w of
              None \<Rightarrow> (s0, [], Done)
            | Some user_question \<Rightarrow>
                if user_question \<noteq> [] then answer_question w s0 user_question
                else (s0, [], Done)) of
        (s1, out, e) \<Rightarrow>
          if e \<noteq> Done then (s1, consultation_heading history @ out, e)
          else
            (case consultation_history s1 of
               None \<Rightarrow> (s1, consultation_heading history @ out, Raised AttributeError)
             | Some h \<Rightarrow>
                 if h \<noteq> [] then
                   (if button w ''Clear Chat History''
                    then (s1\<lparr>consultation_history := Some []\<rparr>,
                          consultation_heading history @ out @ [Button ''Clear Chat History''],
                          Rerun)
                    else (s1, consultation_heading history @ out
                              @ [Button ''Clear Chat History''], Done))
                 else (s1, consultation_heading history @ out, Done)))"

subsection \<open>Skills Gap Analysis (lines 1116-1378)\<close>

definition career_options :: "string list" where
  "career_options =
     [''Software Development'', ''Data Science'', ''Machine Learning Engineering'',
      ''DevOps Engineering'', ''Data Analytics'', ''Cybersecurity'', ''UI/UX Design'']"

text \<open>
  Lines 1185-1220 for the skills of one category, whose rating dict is \<open>rs\<close>: the
  slider starts at the stored rating (0 when there is none) and its value is stored.
\<close>

fun rate_category ::
  "inputs \<Rightarrow> (string \<times> int) list \<Rightarrow> skill list \<Rightarrow> (string \<times> int) list \<times> element list" where
  "rate_category w rs [] = (rs, [])"
| "rate_category w rs (s # ss) =
     (let skill_name = name s;
          current_value = dict_get rs skill_name 0;
          rating = widget_value (slider w skill_name) current_value;
          (rs', out) = rate_category w (AList.update skill_name rating rs) ss
      in (rs', Slider skill_name rating
               # (if rating < weight s then GapBadge skill_name (weight s - rating)
                  else Proficient skill_name)
               # out))"

text \<open>
  Lines 1169-1183: each category is drawn in one of the three tabs, and gets an empty
  rating dict when it has none.
\<close>

fun rate_skills ::
  "inputs \<Rightarrow> nat \<Rightarrow> skill_table \<Rightarrow> ratings \<Rightarrow> ratings \<times> element list \<times> error option" where
  "rate_skills w tab_index [] sg = (sg, [], None)"
| "rate_skills w tab_index ((c, ss) # rest) sg =
     (if tab_index \<ge> 3 then (sg, [], Some IndexError)
      else
        let sg1 = (if map_of sg c = None then AList.update c [] sg else sg);
            (rs, out) = rate_category w (dict_get sg1 c []) ss;
            (sg2, out', e) = rate_skills w (Suc tab_index) rest (AList.update c rs sg1)
        in (sg2, out @ out', e))"

text \<open>Lines 1237-1373, once the sliders are drawn: charts, learning path, progress.\<close>

definition gap_analysis_results :: "skill_table \<Rightarrow> ratings \<Rightarrow> element list \<times> error option" where
  "gap_analysis_results industry_skills sg =
     (let out1 = Subheader ''Gap Analysis Results''
                 # map (\<lambda>(c, ss). RadarChart c) industry_skills
                 @ [Subheader ''Your Personalized Learning Path'']
      in
      case all_gaps industry_skills sg of
        Inl e \<Rightarrow> (out1, Some e)
      | Inr gs \<Rightarrow>
          (let out2 = out1 @ (if gs \<noteq> [] then [PriorityList gs] else [])
                      @ [Subheader ''Progress Tracking'']
           in
           case progress_percentage industry_skills sg of
             Inl e \<Rightarrow> (out2, Some e)
           | Inr p \<Rightarrow> (out2 @ [OverallProgress p, Button ''Save Progress''], None)))"

text \<open>What the page writes before the assessment (lines 1117-1156).\<close>

definition gap_heading :: "rat \<Rightarrow> element list" where
  "gap_heading bd =
     [Header ''Skills Gap Analysis'', Selectbox ''Select your target career path:'',
      NumberInput ''Career Break Duration (years):'' bd]"

definition display_skills_gap_analysis :: "inputs \<Rightarrow> session_state \<Rightarrow> run" where
  "display_skills_gap_analysis w s =
     (case user_data s of
        None \<Rightarrow> (s, [Header ''Skills Gap Analysis''], Raised AttributeError)
      | Some ud \<Rightarrow>
          if ud = [] then
            (if button w ''Go to Profile Setup''
             then (s\<lparr>page := Some ''Profile Setup''\<rparr>,
                   Header ''Skills Gap Analysis'' # profile_missing, Rerun)
             else (s, Header ''Skills Gap Analysis'' # profile_missing, Done))
          else
            (let sg0 = (case skills_gap s of None \<Rightarrow> [] | Some g \<Rightarrow> g);
                 bd0 = (case break_duration s of None \<Rightarrow> 0 | Some b \<Rightarrow> b);
                 selected_career =
                   choice career_options 0 (selectbox w ''Select your target career path:'');
                 bd = widget_value (number_input w ''Career Break Duration (years):'') bd0;
                 industry_skills =
                   (case selected_career of None \<Rightarrow> [] | Some c \<Rightarrow> get_industry_skills c)
             in
             if industry_skills \<noteq> [] then
               (case rate_skills w 0 industry_skills sg0 of
                  (sg1, sliders, Some err) \<Rightarrow>
                    (s\<lparr>skills_gap := Some sg1, break_duration := Some bd\<rparr>,
                     gap_heading bd @ Subheader ''Skills Assessment'' # sliders, Raised err)
                | (sg1, sliders, None) \<Rightarrow>
                    (case gap_analysis_results industry_skills sg1 of
                       (out, Some err) \<Rightarrow>
                         (s\<lparr>skills_gap := Some sg1, break_duration := Some bd\<rparr>,
                          gap_heading bd @ Subheader ''Skills Assessment'' # sliders @ out,
                          Raised err)
                     | (out, None) \<Rightarrow>
                         (s\<lparr>skills_gap := Some sg1, break_duration := Some bd\<rparr>,
                          gap_heading bd @ Subheader ''Skills Assessment'' # sliders @ out,
                          Done)))
             else (s\<lparr>skills_gap := Some sg0, break_duration := Some bd\<rparr>,
                   gap_heading bd, Done)))"

subsection \<open>The script\<close>

text \<open>Lines 1381-1392.\<close>

definition router :: "inputs \<Rightarrow> session_state \<Rightarrow> run" where
  "router w s =
     (case page s of
        None \<Rightarrow> (s, [], Raised AttributeError)
      | Some p \<Rightarrow>
          if p = ''Profile Setup'' then display_profile_setup w s
          else if p = ''Career Assessment'' then display_career_assessment w s
          else if p = ''Career Recommendations'' then display_career_recommendations w s
          else if p = ''Learning Roadmap'' then display_learning_roadmap w s
          else if p = ''Skills Gap Analysis'' then display_skills_gap_analysis w s
          else if p = ''Live AI Consultation'' then display_live_consultation w s
          else (s, [], Done))"

text \<open>
  One run of the script on the store \<open>s\<close>: the defaults, the sidebar, then the page,
  unless the sidebar ended the run.
\<close>

definition script_run :: "inputs \<Rightarrow> session_state \<Rightarrow> run" where
  "script_run w s =
     (let s0 = initialize_page (initialize_session_state s);
          (s1, out1, e1) = sidebar w s0
      in if e1 = Done
         then (let (s2, out2, e2) = router w s1 in (s2, out1 @ out2, e2))
         else (s1, out1, e1))"

text \<open>
  The stores a session can hold between steps: the empty store of a new session, the
  store once the defaults are filled in, and the store a run leaves behind.
\<close>

inductive reachable :: "session_state \<Rightarrow> bool" where
  new_session: "reachable empty_state"
| defaults: "reachable s \<Longrightarrow> reachable (initialize_page (initialize_session_state s))"
| run: "reachable s \<Longrightarrow> reachable (state_of (script_run w s))"

text \<open>The store of a freshly initialized session.\<close>

definition initial_session :: session_state where
  "initial_session = initialize_page (initialize_session_state empty_state)"

subsection \<open>The specification's wording, for comparison\<close>

text \<open>
  The gap of a skill and the prioritized learning path as the specification words them:
  \<open>gap = max(0, requiredWeight - currentRating)\<close>, \<open>priority = gap * requiredWeight\<close>,
  the skills with a positive gap, here in the order of the table.
\<close>

definition spec_gap :: "int \<Rightarrow> int \<Rightarrow> int" where
  "spec_gap required_weight current_rating = max 0 (required_weight - current_rating)"

definition spec_entry :: "string \<Rightarrow> (string \<times> int) list \<Rightarrow> skill \<Rightarrow> gap_entry" where
  "spec_entry c rs s =
     (let g = spec_gap (weight s) (dict_get rs (name s) 0)
      in \<lparr>category = c, skill = name s, gap = g, priority = g * weight s,
          gap_resources = resources s\<rparr>)"

definition spec_gaps :: "skill_table \<Rightarrow> ratings \<Rightarrow> gap_entry list" where
  "spec_gaps industry_skills sg =
     concat (map (\<lambda>(c, ss). filter (\<lambda>e. gap e > 0) (map (spec_entry c (dict_get sg c [])) ss))
                 industry_skills)"

text \<open>
  The progress as the specification words it: the count of skills whose rating reaches
  the skill's own required weight, over the count of all skills, times 100.
\<close>

definition spec_completed_skills :: "skill_table \<Rightarrow> ratings \<Rightarrow> nat" where
  "spec_completed_skills industry_skills sg =
     sum_list (map (\<lambda>(c, ss).
                 length (filter (\<lambda>s. dict_get (dict_get sg c []) (name s) 0 \<ge> weight s) ss))
               industry_skills)"

definition spec_progress_percentage :: "skill_table \<Rightarrow> ratings \<Rightarrow> rat" where
  "spec_progress_percentage industry_skills sg =
     100 * of_nat (spec_completed_skills industry_skills sg)
       / of_nat (total_skills industry_skills)"

subsection \<open>Concrete tables, sessions and inputs\<close>

text \<open>The specification's example: weights A:3, B:5 and ratings A:2, B:0.\<close>

definition example_table :: skill_table where
  "example_table =
     [(''Technical'', [\<lparr>name = ''A'', weight = 3, resources = []\<rparr>,
                       \<lparr>name = ''B'', weight = 5, resources = []\<rparr>])]"

definition example_ratings :: ratings where
  "example_ratings = [(''Technical'', [(''A'', 2), (''B'', 0)])]"

text \<open>A run in which the user touches no widget and the model call fails.\<close>

definition idle :: inputs where
  "idle =
     \<lparr>radio = (\<lambda>label. None), selectbox = (\<lambda>label. None), button = (\<lambda>label. False),
      form_submit_button = (\<lambda>label. False), text_input = (\<lambda>key. []),
      text_area = (\<lambda>key. []), slider = (\<lambda>label. None), number_input = (\<lambda>label. None),
      chat_input = None, recommendations_reply = CallError, consultation_reply = None\<rparr>"

text \<open>
  The ratings the sliders leave when the user of Software Development rates Node.js
  at 3, its required weight, and every other skill at 0.
\<close>

definition node_js_ratings :: ratings where
  "node_js_ratings =
     [(''Technical'', [(''Modern JavaScript (ES6+)'', 0), (''React/Angular/Vue.js'', 0),
                       (''Node.js'', 3), (''Cloud Services (AWS/Azure/GCP)'', 0),
                       (''Docker & Kubernetes'', 0)]),
      (''Tools'', [(''Git & GitHub'', 0), (''VS Code/Modern IDEs'', 0),
                   (''Testing Frameworks'', 0)]),
      (''Soft Skills'', [(''Agile Methodologies'', 0), (''Technical Communication'', 0),
                         (''Problem-Solving'', 0)])]"

text \<open>The store after the runs whose inputs are \<open>ws\<close>, in order.\<close>

fun run_all :: "inputs list \<Rightarrow> session_state \<Rightarrow> session_state" where
  "run_all [] s = s"
| "run_all (w # ws) s = run_all ws (state_of (script_run w s))"

text \<open>The user picks entry \<open>i\<close> of the sidebar and touches nothing else.\<close>

definition go_to :: "nat \<Rightarrow> inputs" where
  "go_to i = idle\<lparr>radio := (\<lambda>label. if label = ''Choose a section:'' then Some i else None)\<rparr>"

text \<open>The user types \<open>a\<close> into the profile form shown at \<open>stage\<close> and submits it.\<close>

definition answer :: "int \<Rightarrow> string \<Rightarrow> inputs" where
  "answer stage a =
     idle\<lparr>text_input := (\<lambda>key. if key = profile_input_key stage then a else []),
          form_submit_button := (\<lambda>label. label = ''Submit'')\<rparr>"

text \<open>The four profile answers of the specification's example, one run each.\<close>

definition jane_inputs :: "inputs list" where
  "jane_inputs =
     [answer 0 ''Jane Doe'', answer 1 ''29'', answer 2 ''BSc CS'', answer 3 ''3 yrs backend'']"

definition profile_session :: session_state where
  "profile_session = run_all jane_inputs empty_state"

text \<open>The user fills in every text area of the assessment form and submits it.\<close>

definition assess :: inputs where
  "assess = idle\<lparr>text_area := (\<lambda>key. ''coding''),
                  form_submit_button := (\<lambda>label. label = ''Submit Responses'')\<rparr>"

text \<open>
  The session of a user who answered the profile and the assessment and then opens
  Career Recommendations, before that page runs.
\<close>

definition assessed_session :: session_state where
  "assessed_session = run_all [go_to 1, assess, go_to 2] profile_session"

text \<open>The same session once the page ran with a failing model call.\<close>

definition advised_session :: session_state where
  "advised_session = state_of (script_run idle assessed_session)"

text \<open>The model answers \<^verbatim>\<open>{"recommended_paths": {}}\<close>: an object where a list is expected.\<close>

definition empty_object_reply :: inputs where
  "empty_object_reply =
     idle\<lparr>recommendations_reply := Decoded (JObj [(''recommended_paths'', JObj [])])\<rparr>"

text \<open>The user picks entry \<open>i\<close> of the target career paths of Skills Gap Analysis.\<close>

definition target :: "nat \<Rightarrow> inputs" where
  "target i =
     idle\<lparr>selectbox := (\<lambda>label. if label = ''Select your target career path:'' then Some i
                                else None)\<rparr>"

text \<open>The user presses Start Fresh.\<close>

definition press_start_fresh :: inputs where
  "press_start_fresh = idle\<lparr>button := (\<lambda>label. label = ''Start Fresh'')\<rparr>"

subsection \<open>Observations and invariants\<close>

text \<open>The progress percentage and the per-skill gap badges among the written elements.\<close>

fun shown_progress :: "element list \<Rightarrow> rat option" where
  "shown_progress [] = None"
| "shown_progress (OverallProgress p # es) = Some p"
| "shown_progress (e # es) = shown_progress es"

fun shown_gaps :: "element list \<Rightarrow> (string \<times> int) list" where
  "shown_gaps [] = []"
| "shown_gaps (GapBadge n g # es) = (n, g) # shown_gaps es"
| "shown_gaps (e # es) = shown_gaps es"

text \<open>The skills of a table with their required weights, in the order of the table.\<close>

definition required_weights :: "skill_table \<Rightarrow> (string \<times> int) list" where
  "required_weights industry_skills =
     concat (map (\<lambda>(c, ss). map (\<lambda>s. (name s, weight s)) ss) industry_skills)"

text \<open>
  The shape of a recommendations reply as the specification documents it: an object
  whose \<open>recommended_paths\<close> is a list of objects, each with the keys
  \<open>career_path\<close>, \<open>match_score\<close>, \<open>reasoning\<close>, \<open>key_skills_required\<close> and
  \<open>market_outlook\<close>.
\<close>

fun documented_path :: "json \<Rightarrow> bool" where
  "documented_path (JObj kvs) =
     list_all (\<lambda>key. map_of kvs key \<noteq> None)
       [''career_path'', ''match_score'', ''reasoning'', ''key_skills_required'',
        ''market_outlook'']"
| "documented_path v = False"

fun documented_shape :: "json \<Rightarrow> bool" where
  "documented_shape (JObj kvs) =
     (case map_of kvs ''recommended_paths'' of
        Some (JArr paths) \<Rightarrow> list_all documented_path paths
      | _ \<Rightarrow> False)"
| "documented_shape v = False"

text \<open>The page stored in the session is one of the six pages.\<close>

definition page_ok :: "session_state \<Rightarrow> bool" where
  "page_ok s = (case page s of None \<Rightarrow> True | Some p \<Rightarrow> p \<in> set pages)"

text \<open>
  The answers stored so far are those to the first \<open>chat_stage\<close> profile questions, in
  the order of the questions, and \<open>chat_stage\<close> is at most their number.
\<close>

definition profile_invariant :: "session_state \<Rightarrow> bool" where
  "profile_invariant s =
     (case (chat_stage s, user_data s) of
        (None, None) \<Rightarrow> True
      | (Some stage, Some ud) \<Rightarrow>
          0 \<le> stage \<and> stage \<le> int (length profile_questions)
          \<and> map fst ud = take (nat stage) (map fst profile_questions)
      | _ \<Rightarrow> False)"

text \<open>The key set of the static knowledge table.\<close>

definition knowledge_keys :: "string list" where
  "knowledge_keys = map fst market_data"

text \<open>
  A selected career path, when set, is one of the stored recommendations or a key of
  the static knowledge table.
\<close>

definition path_invariant :: "session_state \<Rightarrow> bool" where
  "path_invariant s =
     (case selected_career_path s of
        None \<Rightarrow> True
      | Some sel \<Rightarrow>
          sel = JNull
          \<or> sel \<in> set (case career_path_recommendations s of None \<Rightarrow> [] | Some recs \<Rightarrow> recs)
          \<or> sel \<in> set (map JStr knowledge_keys))"

text \<open>The slots the invariants read.\<close>

definition core ::
  "session_state \<Rightarrow> int option \<times> (string \<times> string) list option
     \<times> (string \<times> string) list option \<times> json list option \<times> json option" where
  "core s = (chat_stage s, user_data s, career_preferences s,
             career_path_recommendations s, selected_career_path s)"

section \<open>Properties\<close>

subsection \<open>Concrete sessions\<close>

lemmas script_defs =
  script_run_def initialize_page_def initialize_session_state_def
  empty_state_def setdefault_def sidebar_def start_fresh_def pages_def choice_def idle_def
  router_def state_of_def rendered_def ending_of_def Let_def

lemma initial_session_eq:
  "initial_session =
     \<lparr>chat_session = Some (Chat []), chat_stage = Some 0, user_data = Some [],
      career_preferences = Some [], skills_assessment = Some [],
      career_path_recommendations = Some [], selected_career_path = Some JNull,
      learning_roadmap = Some JNull, page = Some ''Profile Setup'',
      learning_progress = None, consultation_history = None, skills_gap = None,
      break_duration = None\<rparr>"
  by (simp add: initial_session_def initialize_page_def initialize_session_state_def
      empty_state_def setdefault_def)

lemma profile_input_keys:
  "profile_input_key 0 = ''profile_input_0''" "profile_input_key 1 = ''profile_input_1''"
  "profile_input_key 2 = ''profile_input_2''" "profile_input_key 3 = ''profile_input_3''"
  by (simp_all add: profile_input_key_def str_int_def digits.simps)

lemma profile_session_eq:
  "profile_session =
     initial_session
       \<lparr>chat_stage := Some 4,
        user_data := Some [(''Full Name'', ''Jane Doe''), (''Age'', ''29''),
                           (''Education'', ''BSc CS''),
                           (''Technical Background'', ''3 yrs backend'')]\<rparr>"
  by (simp add: profile_session_def jane_inputs_def script_defs answer_def initial_session_eq
      display_profile_setup_def profile_questions_def py_index_def profile_input_keys)

lemma assessed_session_eq:
  "assessed_session =
     profile_session
       \<lparr>career_preferences := Some [(''interests'', ''coding''), (''work_style'', ''coding''),
                                     (''learning_style'', ''coding''),
                                     (''career_goals'', ''coding'')],
        page := Some ''Career Recommendations''\<rparr>"
  by (simp add: assessed_session_def profile_session_eq initial_session_eq script_defs
      go_to_def assess_def display_career_assessment_def responses_def
      career_preference_questions_def)

lemma advised_session_eq:
  "advised_session =
     assessed_session
       \<lparr>career_path_recommendations := Some fallback_recommendations,
        selected_career_path := Some (JStr ''Software Development'')\<rparr>"
  by (simp add: advised_session_def assessed_session_eq profile_session_eq initial_session_eq
      script_defs display_career_recommendations_def load_recommendations_def
      generate_recommendations_def select_career_path_def show_selected_path_def
      fallback_recommendations_def fetch_job_market_data_def get_by_value_def
      market_data_def career_details_def)

lemma reachable_run_all: "reachable s \<Longrightarrow> reachable (run_all ws s)"
  by (induction ws arbitrary: s) (auto intro: reachable.run)

lemma reachable_initial: "reachable initial_session"
  unfolding initial_session_def by (intro reachable.defaults reachable.new_session)

lemma reachable_profile: "reachable profile_session"
  unfolding profile_session_def by (intro reachable_run_all reachable.new_session)

lemma reachable_assessed: "reachable assessed_session"
  unfolding assessed_session_def by (intro reachable_run_all reachable_profile)

lemma reachable_advised: "reachable advised_session"
  unfolding advised_session_def by (intro reachable.run reachable_assessed)

subsection \<open>The prioritized learning path\<close>

lemma category_gaps_spec:
  "category_gaps c rs ss = filter (\<lambda>e. gap e > 0) (map (spec_entry c rs) ss)"
  by (induction ss) (auto simp: spec_entry_def spec_gap_def Let_def)

lemma collect_gaps_spec:
  "\<forall>(c, ss) \<in> set tbl. c \<in> fst ` set sg \<Longrightarrow> collect_gaps tbl sg = Inr (spec_gaps tbl sg)"
proof (induction tbl sg rule: collect_gaps.induct)
  case (1 sg)
  then show ?case by (simp add: spec_gaps_def)
next
  case (2 c rest sg)
  then show ?case by (simp add: spec_gaps_def)
next
  case (3 c s ss rest sg)
  from "3.prems" have "c \<in> fst ` set sg" by simp
  then obtain rs where rs: "map_of sg c = Some rs"
    by (metis domD dom_map_of_conv_image_fst)
  have rest: "collect_gaps rest sg = Inr (spec_gaps rest sg)"
    using "3.IH"[OF rs] "3.prems" by simp
  show ?case
    using rs rest by (simp add: spec_gaps_def category_gaps_spec dict_get_def)
qed

text \<open>
  C2. Whenever every category of the table has a rating dict (the sliders of the page
  see to that), the learning path is computed, and it is exactly the skills with
  \<open>gap = max(0, weight - rating) > 0\<close>, each with \<open>priority = gap * weight\<close>: a
  permutation of them, in descending priority, and among the entries of one priority
  in the order of the table. For weights A:3, B:5 and ratings A:2, B:0 the order is
  B, A.
\<close>

theorem learning_path_order:
  assumes "\<forall>(c, ss) \<in> set industry_skills. c \<in> fst ` set sg"
  shows "(\<exists>gs. all_gaps industry_skills sg = Inr gs
            \<and> mset gs = mset (spec_gaps industry_skills sg)
            \<and> sorted_wrt (\<lambda>a b. priority a \<ge> priority b) gs
            \<and> (\<forall>k. filter (\<lambda>e. priority e = k) gs
                     = filter (\<lambda>e. priority e = k) (spec_gaps industry_skills sg)))
         \<and> map_sum id (map skill) (all_gaps example_table example_ratings)
             = Inr [''B'', ''A'']"
proof -
  let ?xs = "spec_gaps industry_skills sg"
  let ?gs = "sort_reverse priority ?xs"
  have ret: "all_gaps industry_skills sg = Inr ?gs"
    by (simp add: all_gaps_def collect_gaps_spec[OF assms])
  have perm: "mset ?gs = mset ?xs"
    by (simp add: sort_reverse_def)
  have "sorted (map (\<lambda>e. - priority e) ?gs)"
    unfolding sort_reverse_def by (rule sorted_sort_key)
  then have desc: "sorted_wrt (\<lambda>a b. priority a \<ge> priority b) ?gs"
    by (simp add: sorted_wrt_map)
  have stable: "filter (\<lambda>e. priority e = k) ?gs = filter (\<lambda>e. priority e = k) ?xs" for k
    using sort_key_stable[of "\<lambda>e. - priority e" "- k" ?xs]
    by (simp add: sort_reverse_def)
  have example:
    "map_sum id (map skill) (all_gaps example_table example_ratings) = Inr [''B'', ''A'']"
    by (simp add: all_gaps_def example_table_def example_ratings_def sort_reverse_def
        dict_get_def)
  show ?thesis using ret perm desc stable example by blast
qed

theorem learning_path_order_witness:
  "\<exists>gs. all_gaps example_table example_ratings = Inr gs
        \<and> map skill gs = [''B'', ''A'']
        \<and> map priority gs = [25, 3]
        \<and> mset gs = mset (spec_gaps example_table example_ratings)
        \<and> sorted_wrt (\<lambda>a b. priority a \<ge> priority b) gs"
proof -
  have covered: "\<forall>(c, ss) \<in> set example_table. c \<in> fst ` set example_ratings"
    by (simp add: example_table_def example_ratings_def)
  from learning_path_order[OF covered] obtain gs where
    gs: "all_gaps example_table example_ratings = Inr gs"
        "mset gs = mset (spec_gaps example_table example_ratings)"
        "sorted_wrt (\<lambda>a b. priority a \<ge> priority b) gs"
    by blast
  have "all_gaps example_table example_ratings
          = Inr [\<lparr>category = ''Technical'', skill = ''B'', gap = 5, priority = 25,
                   gap_resources = []\<rparr>,
                 \<lparr>category = ''Technical'', skill = ''A'', gap = 1, priority = 3,
                   gap_resources = []\<rparr>]"
    by (simp add: all_gaps_def example_table_def example_ratings_def sort_reverse_def
        dict_get_def)
  with gs have "map skill gs = [''B'', ''A'']" "map priority gs = [25, 3]" by auto
  with gs show ?thesis by (intro exI[of _ gs]) simp
qed

subsection \<open>The overall progress\<close>

text \<open>
  C1. Software Development, Node.js rated 3 (its required weight is 3) and every other
  skill 0. One skill reaches its own weight, so the specification's percentage is
  100 * 1 / 11. The code compares each rating with the weight of the first skill of
  the category (4 for Technical), counts no skill and shows 0.
\<close>

theorem progress_compares_with_first_weight:
  "progress_percentage software_development_skills node_js_ratings = Inr 0
   \<and> completed_skills software_development_skills node_js_ratings = 0
   \<and> spec_completed_skills software_development_skills node_js_ratings = 1
   \<and> spec_progress_percentage software_development_skills node_js_ratings = 100 / 11"
  by (simp add: progress_percentage_def completed_skills_def total_skills_def
      spec_progress_percentage_def spec_completed_skills_def
      software_development_skills_def node_js_ratings_def dict_get_def)

subsection \<open>What each part of the script can change\<close>

lemma choice_mem: "choice xs i picked = Some x \<Longrightarrow> x \<in> set xs"
  by (auto simp: choice_def Let_def split: option.splits if_splits)

lemma list_index_mem:
  "x \<in> set xs \<Longrightarrow> \<exists>i. list_index xs x = Inr i \<and> i < length xs \<and> xs ! i = x"
  by (induction xs) auto

lemma sidebar_cases:
  "sidebar w s = (s', out, e)
   \<Longrightarrow> (e = Done \<and> s' = s) \<or> (e = Rerun \<and> s' = start_fresh s)
       \<or> (e = Rerun \<and> (\<exists>p \<in> set pages. s' = s\<lparr>page := Some p\<rparr>))
       \<or> (\<exists>err. e = Raised err \<and> s' = s)"
  by (auto simp: sidebar_def dest: choice_mem split: option.splits sum.splits if_splits)

lemma script_run_cases:
  assumes "script_run w s = (s', out, e)"
  shows "(\<exists>out1. sidebar w (initialize_page (initialize_session_state s)) = (s', out1, e)
            \<and> e \<noteq> Done)
         \<or> (\<exists>out1 out2.
               sidebar w (initialize_page (initialize_session_state s))
                 = (initialize_page (initialize_session_state s), out1, Done)
               \<and> router w (initialize_page (initialize_session_state s)) = (s', out2, e))"
proof -
  let ?s0 = "initialize_page (initialize_session_state s)"
  obtain s1 out1 e1 where sb: "sidebar w ?s0 = (s1, out1, e1)"
    by (cases "sidebar w ?s0") auto
  show ?thesis
  proof (cases "e1 = Done")
    case True
    with sidebar_cases[OF sb] have "s1 = ?s0" by auto
    with assms sb True show ?thesis
      by (auto simp: script_run_def Let_def split: prod.splits)
  next
    case False
    with assms sb show ?thesis by (auto simp: script_run_def Let_def)
  qed
qed

lemma router_cases:
  "router w s = (s', out, e)
   \<Longrightarrow> s' = s
       \<or> display_profile_setup w s = (s', out, e)
       \<or> display_career_assessment w s = (s', out, e)
       \<or> display_career_recommendations w s = (s', out, e)
       \<or> display_learning_roadmap w s = (s', out, e)
       \<or> display_skills_gap_analysis w s = (s', out, e)
       \<or> display_live_consultation w s = (s', out, e)"
  by (auto simp: router_def split: option.splits if_splits)

lemma profile_frame:
  "display_profile_setup w s = (s', out, e)
   \<Longrightarrow> career_preferences s' = career_preferences s
     \<and> career_path_recommendations s' = career_path_recommendations s
     \<and> selected_career_path s' = selected_career_path s
     \<and> (page s' = page s \<or> page s' = Some ''Career Assessment'')"
  by (auto simp: display_profile_setup_def Let_def
      split: option.splits sum.splits prod.splits if_splits)

lemma assessment_frame:
  "display_career_assessment w s = (s', out, e)
   \<Longrightarrow> chat_stage s' = chat_stage s \<and> user_data s' = user_data s
     \<and> career_path_recommendations s' = career_path_recommendations s
     \<and> selected_career_path s' = selected_career_path s
     \<and> (page s' = page s \<or> page s' = Some ''Profile Setup''
          \<or> page s' = Some ''Career Recommendations'')"
  by (auto simp: display_career_assessment_def Let_def
      simp del: show_preferences.simps
      split: option.splits sum.splits prod.splits if_splits)

lemma load_frame:
  "load_recommendations w s = Inr s1
   \<Longrightarrow> chat_stage s1 = chat_stage s \<and> user_data s1 = user_data s
       \<and> career_preferences s1 = career_preferences s \<and> page s1 = page s
       \<and> selected_career_path s1 = selected_career_path s"
  by (auto simp: load_recommendations_def split: option.splits sum.splits if_splits)

lemma select_frame:
  "select_career_path w s = Inr (s2, out)
   \<Longrightarrow> chat_stage s2 = chat_stage s \<and> user_data s2 = user_data s
       \<and> career_preferences s2 = career_preferences s \<and> page s2 = page s
       \<and> career_path_recommendations s2 = career_path_recommendations s"
  by (auto simp: select_career_path_def Let_def split: option.splits sum.splits if_splits)

lemma recommendations_steps:
  "display_career_recommendations w s = (s', out, e)
   \<Longrightarrow> s' = s \<or> (\<exists>s1. load_recommendations w s = Inr s1
                 \<and> (s' = s1 \<or> (\<exists>out1. select_career_path w s1 = Inr (s', out1))))"
  by (auto simp: display_career_recommendations_def
      split: option.splits sum.splits prod.splits)

lemma recommendations_frame:
  "display_career_recommendations w s = (s', out, e)
   \<Longrightarrow> chat_stage s' = chat_stage s \<and> user_data s' = user_data s
       \<and> career_preferences s' = career_preferences s \<and> page s' = page s"
  using load_frame select_frame by (auto dest!: recommendations_steps)

lemma roadmap_frame:
  "display_learning_roadmap w s = (s', out, e)
   \<Longrightarrow> core s' = core s \<and> (page s' = page s \<or> page s' = Some ''Career Recommendations'')"
  by (auto simp: display_learning_roadmap_def core_def Let_def
      simp del: track_progress.simps show_resources.simps
      split: option.splits sum.splits prod.splits if_splits)

lemma answer_frame:
  "answer_question w s q = (s', out, e)
   \<Longrightarrow> core s' = core s
       \<and> (page s' = page s \<or> page s' = Some ''Career Recommendations''
            \<or> page s' = Some ''Learning Roadmap'')"
  by (auto simp: answer_question_def core_def Let_def
      split: option.splits sum.splits prod.splits if_splits)

lemma consultation_frame:
  "display_live_consultation w s = (s', out, e)
   \<Longrightarrow> core s' = core s
       \<and> (page s' = page s \<or> page s' = Some ''Career Recommendations''
            \<or> page s' = Some ''Learning Roadmap'')"
  by (auto simp: display_live_consultation_def Let_def core_def dest!: answer_frame
      split: option.splits prod.splits if_splits)

lemma skills_gap_frame:
  "display_skills_gap_analysis w s = (s', out, e)
   \<Longrightarrow> core s' = core s \<and> (page s' = page s \<or> page s' = Some ''Profile Setup'')"
  by (auto simp: display_skills_gap_analysis_def core_def Let_def
      simp del: rate_skills.simps
      split: option.splits sum.splits prod.splits if_splits)

subsection \<open>Invariants of the reachable sessions\<close>

lemma script_run_preserves:
  assumes inv: "I s"
    and init: "\<And>s. I s \<Longrightarrow> I (initialize_page (initialize_session_state s))"
    and fresh: "\<And>s. I (start_fresh s)"
    and nav: "\<And>s p. I s \<Longrightarrow> p \<in> set pages \<Longrightarrow> I (s\<lparr>page := Some p\<rparr>)"
    and page_routines:
      "\<And>w s s' out e. I s \<Longrightarrow>
         display_profile_setup w s = (s', out, e)
         \<or> display_career_assessment w s = (s', out, e)
         \<or> display_career_recommendations w s = (s', out, e)
         \<or> display_learning_roadmap w s = (s', out, e)
         \<or> display_skills_gap_analysis w s = (s', out, e)
         \<or> display_live_consultation w s = (s', out, e) \<Longrightarrow> I s'"
  shows "I (state_of (script_run w s))"
proof -
  let ?s0 = "initialize_page (initialize_session_state s)"
  have s0: "I ?s0" using inv by (rule init)
  obtain s' out e where r: "script_run w s = (s', out, e)"
    by (cases "script_run w s") auto
  from script_run_cases[OF r] have "I s'"
  proof
    assume "\<exists>out1. sidebar w ?s0 = (s', out1, e) \<and> e \<noteq> Done"
    then obtain out1 where "sidebar w ?s0 = (s', out1, e)" by blast
    from sidebar_cases[OF this] show ?thesis using s0 fresh nav by auto
  next
    assume "\<exists>out1 out2. sidebar w ?s0 = (?s0, out1, Done) \<and> router w ?s0 = (s', out2, e)"
    then obtain out2 where "router w ?s0 = (s', out2, e)" by blast
    from router_cases[OF this] show ?thesis using s0 page_routines[OF s0] by blast
  qed
  with r show ?thesis by (simp add: state_of_def)
qed

lemma reachable_invariant:
  assumes "reachable s"
    and "I empty_state"
    and "\<And>s. I s \<Longrightarrow> I (initialize_page (initialize_session_state s))"
    and "\<And>w s. I s \<Longrightarrow> I (state_of (script_run w s))"
  shows "I s"
  using assms by (induction rule: reachable.induct) auto

text \<open>The stored page.\<close>

lemma page_ok_run: "page_ok s \<Longrightarrow> page_ok (state_of (script_run w s))"
proof (rule script_run_preserves[where I = page_ok])
  fix w s s' out e
  assume "page_ok s"
    and "display_profile_setup w s = (s', out, e)
         \<or> display_career_assessment w s = (s', out, e)
         \<or> display_career_recommendations w s = (s', out, e)
         \<or> display_learning_roadmap w s = (s', out, e)
         \<or> display_skills_gap_analysis w s = (s', out, e)
         \<or> display_live_consultation w s = (s', out, e)"
  then show "page_ok s'"
    using profile_frame[of w s s' out e] assessment_frame[of w s s' out e]
      recommendations_frame[of w s s' out e] roadmap_frame[of w s s' out e]
      skills_gap_frame[of w s s' out e] consultation_frame[of w s s' out e]
    by (auto simp: page_ok_def pages_def)
qed (auto simp: page_ok_def pages_def initialize_page_def initialize_session_state_def
       setdefault_def start_fresh_def split: option.splits)

lemma reachable_page_ok: "reachable s \<Longrightarrow> page_ok s"
proof (erule reachable_invariant[where I = page_ok])
  show "page_ok empty_state" by (simp add: page_ok_def empty_state_def)
  show "page_ok s \<Longrightarrow> page_ok (initialize_page (initialize_session_state s))" for s
    by (auto simp: page_ok_def pages_def initialize_page_def initialize_session_state_def
        setdefault_def split: option.splits)
  show "page_ok s \<Longrightarrow> page_ok (state_of (script_run w s))" for w s
    by (rule page_ok_run)
qed

text \<open>The profile answers.\<close>

lemma profile_invariant_cong:
  "chat_stage s' = chat_stage s \<Longrightarrow> user_data s' = user_data s
   \<Longrightarrow> profile_invariant s' = profile_invariant s"
  by (simp add: profile_invariant_def)

lemma update_fresh: "k \<notin> fst ` set al \<Longrightarrow> AList.update k v al = al @ [(k, v)]"
  by (induction al) auto

lemma nth_not_in_take: "distinct xs \<Longrightarrow> n < length xs \<Longrightarrow> xs ! n \<notin> set (take n xs)"
  by (auto simp: in_set_conv_nth nth_eq_iff_index_eq)

lemma profile_key_fresh:
  assumes "0 \<le> stage" "stage < int (length profile_questions)"
    and "map fst ud = take (nat stage) (map fst profile_questions)"
  shows "fst (profile_questions ! nat stage) \<notin> fst ` set ud"
proof -
  have d: "distinct (map fst profile_questions)" by (simp add: profile_questions_def)
  have n: "nat stage < length (map fst profile_questions)" using assms by simp
  from nth_not_in_take[OF d n] assms(3) n
  have "map fst profile_questions ! nat stage \<notin> set (map fst ud)" by simp
  with n show ?thesis by simp
qed

lemma profile_submit_state:
  assumes "profile_invariant s" "chat_stage s = Some stage" "user_data s = Some ud"
    and "stage < int (length profile_questions)"
  shows "\<exists>key question.
           py_index profile_questions stage = Inr (key, question)
           \<and> profile_questions ! nat stage = (key, question)
           \<and> key \<notin> fst ` set ud
           \<and> display_profile_setup w s
               = (if form_submit_button w ''Submit'' \<and> text_input w (profile_input_key stage) \<noteq> []
                  then (s\<lparr>user_data := Some (ud @ [(key, text_input w (profile_input_key stage))]),
                          chat_stage := Some (stage + 1)\<rparr>,
                        profile_summary stage ud @ profile_form stage question, Rerun)
                  else (s, profile_summary stage ud @ profile_form stage question, Done))"
proof -
  from assms have nonneg: "0 \<le> stage"
    and keys: "map fst ud = take (nat stage) (map fst profile_questions)"
    by (auto simp: profile_invariant_def)
  obtain key question where kq: "profile_questions ! nat stage = (key, question)"
    by (cases "profile_questions ! nat stage") auto
  have idx: "py_index profile_questions stage = Inr (key, question)"
    using nonneg assms(4) kq by (simp add: py_index_def)
  have fresh: "key \<notin> fst ` set ud"
    using profile_key_fresh[OF nonneg assms(4) keys] kq by simp
  show ?thesis
    using assms(2-4) idx kq fresh
    by (simp add: display_profile_setup_def Let_def update_fresh)
qed

lemma profile_invariant_profile:
  assumes "profile_invariant s" "display_profile_setup w s = (s', out, e)"
  shows "profile_invariant s'"
proof (cases "chat_stage s")
  case None
  with assms show ?thesis by (simp add: display_profile_setup_def)
next
  case (Some stage)
  with assms(1) obtain ud where ud: "user_data s = Some ud"
    by (auto simp: profile_invariant_def split: option.splits)
  show ?thesis
  proof (cases "stage < int (length profile_questions)")
    case True
    from profile_submit_state[OF assms(1) Some ud True, of w] obtain key question where
      kq: "profile_questions ! nat stage = (key, question)"
      and run: "display_profile_setup w s
               = (if form_submit_button w ''Submit'' \<and> text_input w (profile_input_key stage) \<noteq> []
                  then (s\<lparr>user_data := Some (ud @ [(key, text_input w (profile_input_key stage))]),
                          chat_stage := Some (stage + 1)\<rparr>,
                        profile_summary stage ud @ profile_form stage question, Rerun)
                  else (s, profile_summary stage ud @ profile_form stage question, Done))"
      by blast
    from assms(1) Some ud have nonneg: "0 \<le> stage"
      and keys: "map fst ud = take (nat stage) (map fst profile_questions)"
      by (auto simp: profile_invariant_def)
    have n: "nat stage < length (map fst profile_questions)" using nonneg True by simp
    have "map fst (ud @ [(key, a)]) = take (nat (stage + 1)) (map fst profile_questions)" for a
    proof -
      have "nat (stage + 1) = Suc (nat stage)" using nonneg by simp
      moreover have "map fst profile_questions ! nat stage = key" using n kq by simp
      ultimately show ?thesis using keys n by (simp add: take_Suc_conv_app_nth)
    qed
    with assms run nonneg True show ?thesis
      by (auto simp: profile_invariant_def split: if_splits)
  next
    case False
    with assms Some ud show ?thesis
      by (auto simp: display_profile_setup_def profile_invariant_def split: if_splits)
  qed
qed

lemma profile_invariant_run:
  "profile_invariant s \<Longrightarrow> profile_invariant (state_of (script_run w s))"
proof (rule script_run_preserves[where I = profile_invariant])
  fix w s s' out e
  assume inv: "profile_invariant s"
    and "display_profile_setup w s = (s', out, e)
         \<or> display_career_assessment w s = (s', out, e)
         \<or> display_career_recommendations w s = (s', out, e)
         \<or> display_learning_roadmap w s = (s', out, e)
         \<or> display_skills_gap_analysis w s = (s', out, e)
         \<or> display_live_consultation w s = (s', out, e)"
  then show "profile_invariant s'"
    using profile_invariant_profile[of s w s' out e] assessment_frame[of w s s' out e]
      recommendations_frame[of w s s' out e] roadmap_frame[of w s s' out e]
      skills_gap_frame[of w s s' out e] consultation_frame[of w s s' out e]
      profile_invariant_cong[of s' s]
    by (auto simp: core_def)
qed (auto simp: profile_invariant_def initialize_page_def initialize_session_state_def
       setdefault_def start_fresh_def empty_state_def split: option.splits)

lemma reachable_profile_invariant: "reachable s \<Longrightarrow> profile_invariant s"
proof (erule reachable_invariant[where I = profile_invariant])
  show "profile_invariant empty_state" by (simp add: profile_invariant_def empty_state_def)
  show "profile_invariant s \<Longrightarrow> profile_invariant (initialize_page (initialize_session_state s))"
    for s
    by (auto simp: profile_invariant_def initialize_page_def initialize_session_state_def
        setdefault_def split: option.splits)
  show "profile_invariant s \<Longrightarrow> profile_invariant (state_of (script_run w s))" for w s
    by (rule profile_invariant_run)
qed

text \<open>The selected career path.\<close>

lemma path_invariant_cong:
  "career_path_recommendations s' = career_path_recommendations s
   \<Longrightarrow> selected_career_path s' = selected_career_path s
   \<Longrightarrow> path_invariant s' = path_invariant s"
  by (simp add: path_invariant_def split: option.splits)

lemma path_invariant_load:
  "load_recommendations w s = Inr s1 \<Longrightarrow> path_invariant s \<Longrightarrow> path_invariant s1"
  by (auto simp: load_recommendations_def path_invariant_def
      split: option.splits sum.splits if_splits)

lemma paths_to_show_subset:
  "set (technical_paths all_paths) \<subseteq> set all_paths"
  "set (non_technical_paths all_paths) \<subseteq> set all_paths"
  by (auto simp: technical_paths_def non_technical_paths_def)

lemma path_invariant_select:
  assumes "select_career_path w s = Inr (s2, out)" "path_invariant s"
  shows "path_invariant s2"
proof (cases "career_path_recommendations s")
  case None
  with assms show ?thesis by (simp add: select_career_path_def)
next
  case (Some all_paths)
  show ?thesis
  proof (cases "s2 = s")
    case True
    with assms show ?thesis by simp
  next
    case False
    with assms Some obtain paths_to_show p where
      shown: "set paths_to_show \<subseteq> set all_paths"
      and p: "choice paths_to_show 0 (selectbox w ''Select Career Path'') = Some p"
      and s2: "s2 = s\<lparr>selected_career_path := Some p\<rparr>"
      using paths_to_show_subset[of all_paths]
      by (auto simp: select_career_path_def Let_def split: if_splits option.splits)
    from choice_mem[OF p] shown have "p \<in> set all_paths" by auto
    with s2 Some show ?thesis by (simp add: path_invariant_def)
  qed
qed

lemma path_invariant_recommendations:
  assumes "display_career_recommendations w s = (s', out, e)" "path_invariant s"
  shows "path_invariant s'"
  using recommendations_steps[OF assms(1)] assms(2) path_invariant_load path_invariant_select
  by blast

lemma path_invariant_run:
  "path_invariant s \<Longrightarrow> path_invariant (state_of (script_run w s))"
proof (rule script_run_preserves[where I = path_invariant])
  fix w s s' out e
  assume inv: "path_invariant s"
    and "display_profile_setup w s = (s', out, e)
         \<or> display_career_assessment w s = (s', out, e)
         \<or> display_career_recommendations w s = (s', out, e)
         \<or> display_learning_roadmap w s = (s', out, e)
         \<or> display_skills_gap_analysis w s = (s', out, e)
         \<or> display_live_consultation w s = (s', out, e)"
  then show "path_invariant s'"
    using profile_frame[of w s s' out e] assessment_frame[of w s s' out e]
      path_invariant_recommendations[of w s s' out e] roadmap_frame[of w s s' out e]
      skills_gap_frame[of w s s' out e] consultation_frame[of w s s' out e]
      path_invariant_cong[of s' s]
    by (auto simp: core_def)
qed (auto simp: path_invariant_def initialize_page_def initialize_session_state_def
       setdefault_def start_fresh_def empty_state_def split: option.splits)

lemma reachable_path_invariant: "reachable s \<Longrightarrow> path_invariant s"
proof (erule reachable_invariant[where I = path_invariant])
  show "path_invariant empty_state" by (simp add: path_invariant_def empty_state_def)
  show "path_invariant s \<Longrightarrow> path_invariant (initialize_page (initialize_session_state s))"
    for s
    by (auto simp: path_invariant_def initialize_page_def initialize_session_state_def
        setdefault_def split: option.splits)
  show "path_invariant s \<Longrightarrow> path_invariant (state_of (script_run w s))" for w s
    by (rule path_invariant_run)
qed

text \<open>
  C9. In every reachable session the selected career path, when it is set, is one of
  the stored recommendations or a key of the static knowledge table, and every run of
  the script, whatever the widgets and the model return, keeps that property.
\<close>

theorem selected_path_is_known:
  "(reachable s \<longrightarrow> path_invariant s)
   \<and> (path_invariant s \<longrightarrow> path_invariant (state_of (script_run w s)))"
  using reachable_path_invariant path_invariant_run by blast

theorem selected_path_is_known_witness:
  "selected_career_path advised_session = Some (JStr ''Software Development'')
   \<and> JStr ''Software Development''
       \<in> set (case career_path_recommendations advised_session of
                 None \<Rightarrow> [] | Some recs \<Rightarrow> recs)
   \<and> path_invariant advised_session
   \<and> path_invariant (state_of (script_run idle advised_session))"
proof -
  have sel: "selected_career_path advised_session = Some (JStr ''Software Development'')"
    and recs: "career_path_recommendations advised_session = Some fallback_recommendations"
    by (simp_all add: advised_session_eq)
  have mem: "JStr ''Software Development'' \<in> set fallback_recommendations"
    by (simp add: fallback_recommendations_def)
  from selected_path_is_known[of advised_session idle] reachable_advised
  have "path_invariant advised_session"
    and "path_invariant (state_of (script_run idle advised_session))"
    by blast+
  with sel recs mem show ?thesis by simp
qed

subsection \<open>Profile Setup\<close>

text \<open>
  C6. In a reachable session that shows the profile form (the stage is below the number
  of questions), a submission with a non-empty answer adds one entry to \<open>user_data\<close>,
  under the key of the current question, which was not a key before, raises the stage
  by one and changes no other slot; a submission with an empty answer leaves the
  session as it was.
\<close>

theorem profile_submission:
  assumes "reachable s" "chat_stage s = Some stage" "user_data s = Some ud"
    and "stage < int (length profile_questions)"
    and "form_submit_button w ''Submit''"
  shows "\<exists>key question.
           py_index profile_questions stage = Inr (key, question)
           \<and> key \<notin> fst ` set ud
           \<and> (text_input w (profile_input_key stage) \<noteq> [] \<longrightarrow>
                state_of (display_profile_setup w s)
                  = s\<lparr>user_data := Some (ud @ [(key, text_input w (profile_input_key stage))]),
                      chat_stage := Some (stage + 1)\<rparr>
                \<and> ending_of (display_profile_setup w s) = Rerun)
           \<and> (text_input w (profile_input_key stage) = [] \<longrightarrow>
                state_of (display_profile_setup w s) = s
                \<and> ending_of (display_profile_setup w s) = Done)"
proof -
  have inv: "profile_invariant s" using assms(1) by (rule reachable_profile_invariant)
  from profile_submit_state[OF inv assms(2-4), of w] assms(5) show ?thesis
    by (auto simp: state_of_def ending_of_def)
qed

theorem profile_submission_witness:
  "state_of (display_profile_setup (answer 0 ''Jane Doe'') initial_session)
     = initial_session\<lparr>user_data := Some [(''Full Name'', ''Jane Doe'')],
                        chat_stage := Some 1\<rparr>
   \<and> ending_of (display_profile_setup (answer 0 ''Jane Doe'') initial_session) = Rerun
   \<and> state_of (display_profile_setup (answer 0 []) initial_session) = initial_session"
proof -
  have st: "chat_stage initial_session = Some 0" and ud: "user_data initial_session = Some []"
    by (simp_all add: initial_session_eq)
  have lt: "(0::int) < int (length profile_questions)" by (simp add: profile_questions_def)
  have idx: "py_index profile_questions 0
               = Inr (''Full Name'', ''What is your full name?'')"
    by (simp add: py_index_def profile_questions_def)
  have sub: "form_submit_button (answer 0 a) ''Submit''" for a
    by (simp add: answer_def idle_def)
  have typed: "text_input (answer 0 a) (profile_input_key 0) = a" for a
    by (simp add: answer_def idle_def)
  from profile_submission[OF reachable_initial st ud lt sub, of "''Jane Doe''"] idx typed
  have a: "state_of (display_profile_setup (answer 0 ''Jane Doe'') initial_session)
             = initial_session\<lparr>user_data := Some [(''Full Name'', ''Jane Doe'')],
                                chat_stage := Some 1\<rparr>
           \<and> ending_of (display_profile_setup (answer 0 ''Jane Doe'') initial_session) = Rerun"
    by auto
  from profile_submission[OF reachable_initial st ud lt sub, of "[]"] typed
  have b: "state_of (display_profile_setup (answer 0 []) initial_session) = initial_session"
    by auto
  from a b show ?thesis by simp
qed

text \<open>
  C8. From a new session, the answers Jane Doe, 29, BSc CS and 3 yrs backend, one
  submission each, leave \<open>user_data\<close> with exactly the four question keys (Full Name,
  Age, Education, Technical Background) and these answers, in that order; the stage
  then equals the number of profile questions, and the page shows its completion
  message.
\<close>

theorem jane_profile:
  "user_data (run_all jane_inputs empty_state)
     = Some [(''Full Name'', ''Jane Doe''), (''Age'', ''29''), (''Education'', ''BSc CS''),
             (''Technical Background'', ''3 yrs backend'')]
   \<and> chat_stage (run_all jane_inputs empty_state) = Some (int (length profile_questions))
   \<and> rendered (display_profile_setup idle (run_all jane_inputs empty_state))
     = profile_summary 4 [(''Full Name'', ''Jane Doe''), (''Age'', ''29''),
                          (''Education'', ''BSc CS''),
                          (''Technical Background'', ''3 yrs backend'')]
       @ [Success ''Profile setup completed! Please proceed to Career Assessment.'',
          Button ''Go to Career Assessment'']"
proof -
  have "run_all jane_inputs empty_state = profile_session" by (simp add: profile_session_def)
  then show ?thesis
    by (simp add: profile_session_eq initial_session_eq profile_questions_def
        display_profile_setup_def rendered_def idle_def profile_completed_def)
qed

subsection \<open>Start Fresh\<close>

text \<open>
  C7. Pressing Start Fresh in any reachable session ends the run with a rerun and a
  store that holds the first page only; the defaults of the rerun make it the store of
  a freshly initialized session, and the rerun leaves it so: stage 0, page Profile
  Setup, every collection empty, no slot of a visited page left.
\<close>

theorem start_fresh_resets:
  assumes "reachable s" "radio w ''Choose a section:'' = None" "button w ''Start Fresh''"
  shows "ending_of (script_run w s) = Rerun
         \<and> state_of (script_run w s) = empty_state\<lparr>page := Some ''Profile Setup''\<rparr>
         \<and> initialize_page (initialize_session_state (state_of (script_run w s)))
             = initial_session
         \<and> state_of (script_run idle (state_of (script_run w s))) = initial_session
         \<and> chat_stage initial_session = Some 0
         \<and> page initial_session = Some ''Profile Setup''
         \<and> user_data initial_session = Some []
         \<and> career_preferences initial_session = Some []
         \<and> skills_assessment initial_session = Some []
         \<and> career_path_recommendations initial_session = Some []
         \<and> selected_career_path initial_session = Some JNull
         \<and> consultation_history initial_session = None
         \<and> skills_gap initial_session = None
         \<and> learning_progress initial_session = None
         \<and> break_duration initial_session = None"
proof -
  let ?s0 = "initialize_page (initialize_session_state s)"
  have "page_ok ?s0"
    using reachable_page_ok[OF reachable.defaults[OF assms(1)]] .
  moreover have "page ?s0 \<noteq> None"
    by (simp add: initialize_page_def setdefault_def split: option.splits)
  ultimately obtain p where p: "page ?s0 = Some p" "p \<in> set pages"
    by (auto simp: page_ok_def)
  from list_index_mem[OF p(2)] obtain i where
    i: "list_index pages p = Inr i" "i < length pages" "pages ! i = p"
    by blast
  have side: "sidebar w ?s0
                = (start_fresh ?s0, [Radio ''Choose a section:'', Button ''Start Fresh''], Rerun)"
    using p i assms(2,3) by (simp add: sidebar_def choice_def)
  have run: "script_run w s
               = (empty_state\<lparr>page := Some ''Profile Setup''\<rparr>,
                  [Radio ''Choose a section:'', Button ''Start Fresh''], Rerun)"
    using side by (simp add: script_run_def start_fresh_def)
  have again: "state_of (script_run idle (empty_state\<lparr>page := Some ''Profile Setup''\<rparr>))
                 = initial_session"
    by (simp add: script_defs initial_session_eq display_profile_setup_def
        profile_questions_def py_index_def)
  have dflt: "initialize_page (initialize_session_state
                (empty_state\<lparr>page := Some ''Profile Setup''\<rparr>)) = initial_session"
    by (simp add: initial_session_eq initialize_page_def initialize_session_state_def
        empty_state_def setdefault_def)
  show ?thesis
    using run again dflt by (simp add: state_of_def ending_of_def initial_session_eq)
qed

theorem start_fresh_resets_witness:
  "career_path_recommendations advised_session = Some fallback_recommendations
   \<and> selected_career_path advised_session = Some (JStr ''Software Development'')
   \<and> ending_of (script_run press_start_fresh advised_session) = Rerun
   \<and> state_of (script_run idle (state_of (script_run press_start_fresh advised_session)))
       = initial_session
   \<and> career_path_recommendations initial_session = Some []
   \<and> selected_career_path initial_session = Some JNull"
proof -
  have r: "radio press_start_fresh ''Choose a section:'' = None"
    and b: "button press_start_fresh ''Start Fresh''"
    by (simp_all add: press_start_fresh_def idle_def)
  from start_fresh_resets[OF reachable_advised r b]
  have "ending_of (script_run press_start_fresh advised_session) = Rerun"
    and "state_of (script_run idle (state_of (script_run press_start_fresh advised_session)))
           = initial_session"
    and "career_path_recommendations initial_session = Some []"
    and "selected_career_path initial_session = Some JNull"
    by blast+
  moreover have "career_path_recommendations advised_session = Some fallback_recommendations"
    and "selected_career_path advised_session = Some (JStr ''Software Development'')"
    by (simp_all add: advised_session_eq)
  ultimately show ?thesis by blast
qed

subsection \<open>Pages without their prerequisite\<close>

text \<open>
  C3. A new session whose user opens Career Recommendations: the page writes its
  header and nothing else, neither a guidance message nor a button to Career
  Assessment, and stores nothing. Opening Learning Roadmap instead writes the warning
  and the button to Career Recommendations, as the sibling pages do.
\<close>

theorem recommendations_without_preferences:
  "script_run idle (state_of (script_run (go_to 2) empty_state))
     = (initial_session\<lparr>page := Some ''Career Recommendations''\<rparr>,
        [Radio ''Choose a section:'', Button ''Start Fresh'',
         Header ''Career Path Recommendations''],
        Done)
   \<and> script_run idle (state_of (script_run (go_to 3) empty_state))
     = (initial_session\<lparr>page := Some ''Learning Roadmap''\<rparr>,
        [Radio ''Choose a section:'', Button ''Start Fresh'',
         Header ''Personalized Learning Roadmap'',
         Warning ''Please select a career path from the Career Recommendations section first!'',
         Button ''Go to Career Recommendations''],
        Done)"
  by (simp add: script_defs go_to_def initial_session_eq
      display_career_recommendations_def load_recommendations_def select_career_path_def
      show_selected_path_def display_learning_roadmap_def path_missing_def)


end
